theory Spec2Isabelle
  imports Complex_Main
begin

section \<open>Data model (src/lib/store.ts, lines 6-140)\<close>

text \<open>
  JavaScript numbers are modelled as exact reals: every stored coordinate, size and
  width is a finite number, and arithmetic on them neither rounds nor overflows. The
  theorems of this theory are stated so that they do not rest on that: they are
  evaluations at inputs on which the double arithmetic of the source is exact or rounds
  to the value stated, or they use only comparisons and copies. Where the source
  divides zero by zero the result is NaN; the functions that can do so return a sum type
  with \<open>NaN\<close> on the left (see the geometry section). The field \<open>angleValue\<close>, in
  which the angle tool stores what \<open>calculateAngle\<close> returned, holds a \<open>jsvalue\<close>: a
  number, NaN, an infinity, or the \<open>null\<close> that a JSON round trip puts in their
  place.
  The selectors of \<open>Point\<close> are called \<open>px\<close> and \<open>py\<close> (the source has \<open>x\<close>
  and \<open>y\<close>), the identifier, type tag and text of an object \<open>oid\<close>, \<open>otype\<close> and
  \<open>otext\<close>. An optional field \<open>f?: T\<close> is a field of type \<open>T option\<close>, \<open>None\<close>
  being \<open>undefined\<close>. Of \<open>nameStyle\<close> the two members read by the modelled code
  are kept (\<open>fontSize\<close>, \<open>color\<close>). Fields that no modelled function reads are
  left out of the record.
\<close>

record Point =
  px :: real
  py :: real

datatype ObjType = TPoint | TLine | TRectangle | TCircle | TText | TPolygon | TAngle
  | TPerpendicular | TParallel | TMidpoint | TDistance | TPerpBisector | TFunction | TImage

datatype ConstraintType = Center | StartPoint | EndPoint

datatype ArrowStyle = ArrowNone | Arrow | Stealth | Latex

datatype jsvalue = Num real | NaNum | PosInf | NegInf | NullValue

record Constraint =
  ctype :: ConstraintType
  targetId :: string
  offset :: "Point option"

record DrawingObject =
  oid :: string
  otype :: ObjType
  name :: string
  visible :: bool
  selected :: bool
  showName :: "bool option"
  namePosition :: "Point option"
  nameStyleFontSize :: "real option"
  nameStyleColor :: "string option"
  position :: Point
  stroke :: string
  strokeWidth :: real
  fill :: string
  points :: "Point list option"
  radius :: "real option"
  width :: "real option"
  height :: "real option"
  otext :: "string option"
  fontSize :: "real option"
  rotation :: "real option"
  scaleX :: "real option"
  scaleY :: "real option"
  flipX :: "bool option"
  flipY :: "bool option"
  arrowStart :: "ArrowStyle option"
  arrowEnd :: "ArrowStyle option"
  angleValue :: "jsvalue option"
  baseLineId :: "string option"
  createdAt :: int
  constraints :: "Constraint list option"

datatype ConstructionMode = CNone | SelectPoint | SelectLine | SelectTwoPoints

text \<open>
  The store state. \<open>activeTool\<close>, \<open>canvas\<close> and \<open>constructionData\<close> are not read
  by any operation modelled here and are left out.
\<close>

record AppState =
  objects :: "DrawingObject list"
  selectedObjectIds :: "string list"
  history :: "DrawingObject list list"
  historyIndex :: int
  maxHistorySize :: int
  isDrawing :: bool
  drawingStartPoint :: "Point option"
  previewObject :: "DrawingObject option"
  currentPolygonPoints :: "Point list"
  isPolygonDrawing :: bool
  constructionMode :: ConstructionMode
  constructionStep :: int
  isSelectionBoxActive :: bool
  selectionBoxStart :: "Point option"
  selectionBoxEnd :: "Point option"
  isTextEditing :: bool
  textEditorPosition :: "Point option"

text \<open>Exceptions a store operation can raise.\<close>

datatype js_error = SyntaxError | TypeError

section \<open>JavaScript array primitives\<close>

text \<open>
  \<open>Array.prototype.slice(start, end)\<close>: a negative index counts from the end, and both
  are clamped to the array.
\<close>

definition js_rel_index :: "nat \<Rightarrow> int \<Rightarrow> nat" where
  "js_rel_index len k = (if k < 0 then nat (max (int len + k) 0) else nat (min k (int len)))"

definition js_slice :: "'a list \<Rightarrow> int \<Rightarrow> int \<Rightarrow> 'a list" where
  "js_slice xs start end =
     (let from = js_rel_index (length xs) start;
          to = js_rel_index (length xs) end
      in take (to - from) (drop from xs))"

definition js_slice_from :: "'a list \<Rightarrow> int \<Rightarrow> 'a list" where
  "js_slice_from xs start = js_slice xs start (int (length xs))"

text \<open>\<open>xs[i]\<close>: \<open>undefined\<close> (here \<open>None\<close>) outside the array.\<close>

definition js_index :: "'a list \<Rightarrow> int \<Rightarrow> 'a option" where
  "js_index xs i = (if 0 \<le> i \<and> i < int (length xs) then Some (xs ! nat i) else None)"

text \<open>\<open>Array.prototype.findIndex\<close>, \<open>None\<close> for -1.\<close>

fun findIndex :: "('a \<Rightarrow> bool) \<Rightarrow> 'a list \<Rightarrow> nat option" where
  "findIndex P [] = None"
| "findIndex P (x # xs) =
     (if P x then Some 0 else map_option Suc (findIndex P xs))"

text \<open>
  \<open>JSON.parse(JSON.stringify(v))\<close> on a collection of objects. \<open>JSON.stringify\<close>
  writes NaN and the infinities as \<open>null\<close>; strings, booleans, finite numbers and
  nested arrays come back as they were, and an absent optional field stays absent. In
  this model the only field that can hold a number that is not finite is
  \<open>angleValue\<close>. Applied to \<open>undefined\<close>, \<open>JSON.stringify\<close> returns
  \<open>undefined\<close> and \<open>JSON.parse\<close> raises a SyntaxError.
\<close>

definition jsonNumber :: "jsvalue \<Rightarrow> jsvalue" where
  "jsonNumber v = (case v of Num r \<Rightarrow> Num r | _ \<Rightarrow> NullValue)"

definition jsonCopy :: "DrawingObject \<Rightarrow> DrawingObject" where
  "jsonCopy obj = obj\<lparr>angleValue := map_option jsonNumber (angleValue obj)\<rparr>"

definition deepCopy :: "DrawingObject list \<Rightarrow> DrawingObject list" where
  "deepCopy objs = map jsonCopy objs"

definition deepCopy_opt :: "DrawingObject list option \<Rightarrow> js_error + DrawingObject list" where
  "deepCopy_opt v = (case v of None \<Rightarrow> Inl SyntaxError | Some objs \<Rightarrow> Inr (deepCopy objs))"

text \<open>An object that the JSON round trip leaves as it is: no number that is not finite.\<close>

definition jsonStable :: "DrawingObject \<Rightarrow> bool" where
  "jsonStable obj =
     (case angleValue obj of
        None \<Rightarrow> True
      | Some v \<Rightarrow> v \<noteq> NaNum \<and> v \<noteq> PosInf \<and> v \<noteq> NegInf)"

section \<open>Object store (src/lib/store.ts, lines 242-560 and 748-769)\<close>

definition initialState :: AppState where
  "initialState =
     \<lparr>objects = [], selectedObjectIds = [], history = [[]], historyIndex = 0,
      maxHistorySize = 50, isDrawing = False, drawingStartPoint = None,
      previewObject = None, currentPolygonPoints = [], isPolygonDrawing = False,
      constructionMode = CNone, constructionStep = 0, isSelectionBoxActive = False,
      selectionBoxStart = None, selectionBoxEnd = None, isTextEditing = False,
      textEditorPosition = None\<rparr>"

subsection \<open>Selection\<close>

definition mirrorSelection :: "string list \<Rightarrow> DrawingObject list \<Rightarrow> DrawingObject list" where
  "mirrorSelection ids objs = map (\<lambda>obj. obj\<lparr>selected := (oid obj \<in> set ids)\<rparr>) objs"

definition selectObject :: "string \<Rightarrow> bool \<Rightarrow> AppState \<Rightarrow> AppState" where
  "selectObject i multiSelect s =
     (let ids = (if multiSelect
                 then (if i \<in> set (selectedObjectIds s)
                       then filter (\<lambda>selectedId. selectedId \<noteq> i) (selectedObjectIds s)
                       else selectedObjectIds s @ [i])
                 else [i])
      in s\<lparr>selectedObjectIds := ids, objects := mirrorSelection ids (objects s)\<rparr>)"

definition selectObjects :: "string list \<Rightarrow> AppState \<Rightarrow> AppState" where
  "selectObjects ids s = s\<lparr>selectedObjectIds := ids, objects := mirrorSelection ids (objects s)\<rparr>"

definition unselectAll :: "DrawingObject list \<Rightarrow> DrawingObject list" where
  "unselectAll objs = map (\<lambda>obj. obj\<lparr>selected := False\<rparr>) objs"

definition clearSelection :: "AppState \<Rightarrow> AppState" where
  "clearSelection s = s\<lparr>selectedObjectIds := [], objects := unselectAll (objects s)\<rparr>"

definition selectAll :: "AppState \<Rightarrow> AppState" where
  "selectAll s =
     s\<lparr>selectedObjectIds := map oid (objects s),
       objects := map (\<lambda>obj. obj\<lparr>selected := True\<rparr>) (objects s)\<rparr>"

subsection \<open>History\<close>

definition saveToHistory :: "AppState \<Rightarrow> AppState" where
  "saveToHistory s =
     (let currentObjects = deepCopy (objects s);
          h1 = (if historyIndex s < int (length (history s)) - 1
                then js_slice (history s) 0 (historyIndex s + 1)
                else history s);
          h2 = h1 @ [currentObjects];
          h3 = (if int (length h2) > maxHistorySize s
                then js_slice_from h2 (- maxHistorySize s)
                else h2)
      in s\<lparr>history := h3, historyIndex := int (length h3) - 1\<rparr>)"

text \<open>
  \<open>undo\<close> and \<open>redo\<close> read \<open>history[historyIndex]\<close> after moving the cursor; when
  that entry is \<open>undefined\<close> the JSON round trip raises inside the state update, and the
  exception leaves the caller (\<open>Inl\<close>).
\<close>

definition undo :: "AppState \<Rightarrow> js_error + AppState" where
  "undo s =
     (if historyIndex s > 0
      then (let i = historyIndex s - 1
            in case deepCopy_opt (js_index (history s) i) of
                 Inl e \<Rightarrow> Inl e
               | Inr objs \<Rightarrow>
                   Inr (s\<lparr>historyIndex := i, objects := unselectAll objs,
                          selectedObjectIds := []\<rparr>))
      else Inr s)"

definition redo :: "AppState \<Rightarrow> js_error + AppState" where
  "redo s =
     (if historyIndex s < int (length (history s)) - 1
      then (let i = historyIndex s + 1
            in case deepCopy_opt (js_index (history s) i) of
                 Inl e \<Rightarrow> Inl e
               | Inr objs \<Rightarrow>
                   Inr (s\<lparr>historyIndex := i, objects := unselectAll objs,
                          selectedObjectIds := []\<rparr>))
      else Inr s)"

definition canUndo :: "AppState \<Rightarrow> bool" where
  "canUndo s = (historyIndex s > 0)"

definition canRedo :: "AppState \<Rightarrow> bool" where
  "canRedo s = (historyIndex s < int (length (history s)) - 1)"

subsection \<open>Object management\<close>

text \<open>
  \<open>addObject\<close> draws the identifier from \<open>Math.random\<close> and the timestamp from
  \<open>Date.now\<close>; both are inputs of the model. The payload is an object whose \<open>id\<close>
  and \<open>createdAt\<close> are overwritten.
\<close>

definition addObject :: "DrawingObject \<Rightarrow> string \<Rightarrow> int \<Rightarrow> AppState \<Rightarrow> AppState" where
  "addObject objectData newObjectId now s =
     (let newObject = objectData\<lparr>oid := newObjectId, createdAt := now\<rparr>;
          s1 = s\<lparr>objects := objects s @ [newObject]\<rparr>;
          s2 = selectObject newObjectId False s1
      in saveToHistory s2)"

text \<open>
  \<open>updateObject\<close> merges a partial object into the stored one with \<open>Object.assign\<close>.
  The merge is a parameter \<open>updates\<close> of the model, the function that overwrites the
  given fields.
\<close>

definition updateObject ::
  "string \<Rightarrow> (DrawingObject \<Rightarrow> DrawingObject) \<Rightarrow> AppState \<Rightarrow> AppState" where
  "updateObject i updates s =
     saveToHistory
       (case findIndex (\<lambda>obj. oid obj = i) (objects s) of
          None \<Rightarrow> s
        | Some index \<Rightarrow> s\<lparr>objects := (objects s)[index := updates (objects s ! index)]\<rparr>)"

definition deleteObject :: "string \<Rightarrow> AppState \<Rightarrow> AppState" where
  "deleteObject i s =
     saveToHistory
       (s\<lparr>objects := filter (\<lambda>obj. oid obj \<noteq> i) (objects s),
          selectedObjectIds := filter (\<lambda>selectedId. selectedId \<noteq> i) (selectedObjectIds s)\<rparr>)"

definition deleteSelectedObjects :: "AppState \<Rightarrow> AppState" where
  "deleteSelectedObjects s = fold deleteObject (selectedObjectIds s) s"

definition clearCanvas :: "AppState \<Rightarrow> AppState" where
  "clearCanvas s =
     s\<lparr>objects := [], selectedObjectIds := [], history := [[]], historyIndex := 0,
       isDrawing := False, drawingStartPoint := None, previewObject := None,
       currentPolygonPoints := [], isPolygonDrawing := False,
       constructionMode := CNone, constructionStep := 0,
       isSelectionBoxActive := False, selectionBoxStart := None,
       selectionBoxEnd := None, isTextEditing := False, textEditorPosition := None\<rparr>"

subsection \<open>The history invariant\<close>

definition hist_inv :: "AppState \<Rightarrow> bool" where
  "hist_inv s = (0 \<le> historyIndex s \<and> historyIndex s < int (length (history s)))"

text \<open>
  The history \<open>saveToHistory\<close> has built before the capacity cut: the snapshots up to
  the cursor, followed by the copy of the live collection.
\<close>

definition truncated :: "AppState \<Rightarrow> DrawingObject list list" where
  "truncated s = take (nat (historyIndex s) + 1) (history s) @ [deepCopy (objects s)]"

text \<open>
  The live collection and the snapshot at the cursor agree up to the \<open>selected\<close> flags
  and the JSON copy. The lemmas \<open>synced_initial\<close> to \<open>synced_selection\<close> below show
  that this holds in the initial state, after every committing operation, after undo,
  redo and \<open>clearCanvas\<close>, and that selection changes preserve it. It does not hold
  after the saved objects were loaded or after an update that has not been committed.
\<close>

definition synced :: "AppState \<Rightarrow> bool" where
  "synced s =
     (unselectAll (deepCopy (objects s))
        = unselectAll (deepCopy (history s ! nat (historyIndex s))))"


section \<open>Selection box (src/lib/store.ts, lines 386-472)\<close>

definition startSelectionBox :: "Point \<Rightarrow> AppState \<Rightarrow> AppState" where
  "startSelectionBox point s = s\<lparr>isSelectionBoxActive := True, selectionBoxStart := Some point\<rparr>"

definition updateSelectionBox :: "Point \<Rightarrow> AppState \<Rightarrow> AppState" where
  "updateSelectionBox point s = s\<lparr>selectionBoxEnd := Some point\<rparr>"

text \<open>The test \<open>p.x >= minX && p.x <= maxX && p.y >= minY && p.y <= maxY\<close>.\<close>

definition inRect :: "real \<Rightarrow> real \<Rightarrow> real \<Rightarrow> real \<Rightarrow> Point \<Rightarrow> bool" where
  "inRect minX maxX minY maxY p =
     (px p \<ge> minX \<and> px p \<le> maxX \<and> py p \<ge> minY \<and> py p \<le> maxY)"

text \<open>The \<open>switch (obj.type)\<close> of \<open>finishSelectionBox\<close>, with its \<open>default\<close> branch.\<close>

definition isInBox :: "real \<Rightarrow> real \<Rightarrow> real \<Rightarrow> real \<Rightarrow> DrawingObject \<Rightarrow> bool" where
  "isInBox minX maxX minY maxY obj =
     (case otype obj of
        TPoint \<Rightarrow> inRect minX maxX minY maxY (position obj)
      | TLine \<Rightarrow>
          (case points obj of
             None \<Rightarrow> False
           | Some ps \<Rightarrow>
               (if length ps \<ge> 2 then list_ex (inRect minX maxX minY maxY) ps else False))
      | TRectangle \<Rightarrow> inRect minX maxX minY maxY (position obj)
      | TCircle \<Rightarrow> inRect minX maxX minY maxY (position obj)
      | TText \<Rightarrow> inRect minX maxX minY maxY (position obj)
      | _ \<Rightarrow> inRect minX maxX minY maxY (position obj))"

text \<open>The \<open>objects.forEach\<close> loop that pushes the identifiers of the hit objects.\<close>

fun collectIds :: "real \<Rightarrow> real \<Rightarrow> real \<Rightarrow> real \<Rightarrow> DrawingObject list \<Rightarrow> string list" where
  "collectIds minX maxX minY maxY [] = []"
| "collectIds minX maxX minY maxY (obj # objs) =
     (if \<not> visible obj then collectIds minX maxX minY maxY objs
      else if isInBox minX maxX minY maxY obj
           then oid obj # collectIds minX maxX minY maxY objs
           else collectIds minX maxX minY maxY objs)"

definition finishSelectionBox :: "AppState \<Rightarrow> AppState" where
  "finishSelectionBox s =
     (let s1 = (case (selectionBoxStart s, selectionBoxEnd s) of
                  (Some boxStart, Some boxEnd) \<Rightarrow>
                    (let minX = min (px boxStart) (px boxEnd);
                         maxX = max (px boxStart) (px boxEnd);
                         minY = min (py boxStart) (py boxEnd);
                         maxY = max (py boxStart) (py boxEnd);
                         selectedIds = collectIds minX maxX minY maxY (objects s)
                     in selectObjects selectedIds s)
                | _ \<Rightarrow> s)
      in s1\<lparr>isSelectionBoxActive := False, selectionBoxStart := None,
             selectionBoxEnd := None\<rparr>)"

text \<open>
  The selection-box commit as the store receives it: the two corners are set by
  \<open>startSelectionBox\<close> and \<open>updateSelectionBox\<close>, then \<open>finishSelectionBox\<close> runs.
\<close>

definition selectionBoxCommit :: "Point \<Rightarrow> Point \<Rightarrow> AppState \<Rightarrow> AppState" where
  "selectionBoxCommit a b s = finishSelectionBox (updateSelectionBox b (startSelectionBox a s))"

text \<open>
  The rectangle spanned by two corners and the hit test of the claim as amended: a line
  by any of its points when it has at least two, every other type by its anchor.
\<close>

definition inSpan :: "Point \<Rightarrow> Point \<Rightarrow> Point \<Rightarrow> bool" where
  "inSpan a b p =
     (min (px a) (px b) \<le> px p \<and> px p \<le> max (px a) (px b)
      \<and> min (py a) (py b) \<le> py p \<and> py p \<le> max (py a) (py b))"

definition hitsBox :: "Point \<Rightarrow> Point \<Rightarrow> DrawingObject \<Rightarrow> bool" where
  "hitsBox a b obj =
     (if otype obj = TLine
      then (case points obj of
              None \<Rightarrow> False
            | Some ps \<Rightarrow> 2 \<le> length ps \<and> (\<exists>p \<in> set ps. inSpan a b p))
      else inSpan a b (position obj))"

section \<open>Constraint propagation (src/lib/store.ts, lines 1049-1109)\<close>

text \<open>
  \<open>xs[i] = v\<close> on an array: inside the array the element is replaced, at index
  \<open>length\<close> the array grows by one. Further out JavaScript leaves holes before the new
  element; an array with holes is not a list of points, and the model returns \<open>None\<close>
  for it.
\<close>

definition js_assign :: "'a list \<Rightarrow> nat \<Rightarrow> 'a \<Rightarrow> 'a list option" where
  "js_assign xs i v =
     (if i < length xs then Some (xs[i := v])
      else if i = length xs then Some (xs @ [v])
      else None)"

definition addConstraint :: "string \<Rightarrow> Constraint \<Rightarrow> AppState \<Rightarrow> AppState" where
  "addConstraint objectId c s =
     (case findIndex (\<lambda>obj. oid obj = objectId) (objects s) of
        None \<Rightarrow> s
      | Some index \<Rightarrow>
          (let obj = objects s ! index;
               cs = (case constraints obj of None \<Rightarrow> [] | Some cs \<Rightarrow> cs)
           in s\<lparr>objects := (objects s)[index := obj\<lparr>constraints := Some (cs @ [c])\<rparr>]\<rparr>))"

definition removeConstraint :: "string \<Rightarrow> string \<Rightarrow> AppState \<Rightarrow> AppState" where
  "removeConstraint objectId tid s =
     (case findIndex (\<lambda>obj. oid obj = objectId) (objects s) of
        None \<Rightarrow> s
      | Some index \<Rightarrow>
          (let obj = objects s ! index
           in case constraints obj of
                None \<Rightarrow> s
              | Some cs \<Rightarrow>
                  s\<lparr>objects := (objects s)[index :=
                       obj\<lparr>constraints := Some (filter (\<lambda>c. targetId c \<noteq> tid) cs)\<rparr>]\<rparr>))"

text \<open>
  The \<open>switch (constraint.type)\<close> of \<open>updateConstrainedObjects\<close>, applied to the
  dependent \<open>obj\<close> for a constraint whose target was found.
\<close>

definition followConstraint ::
  "Constraint \<Rightarrow> DrawingObject \<Rightarrow> DrawingObject \<Rightarrow> DrawingObject option" where
  "followConstraint c target obj =
     (case ctype c of
        Center \<Rightarrow>
          (if otype obj = TCircle
           then Some (obj\<lparr>position :=
                  (case offset c of
                     None \<Rightarrow> position target
                   | Some off \<Rightarrow> \<lparr>px = px (position target) + px off,
                                  py = py (position target) + py off\<rparr>)\<rparr>)
           else Some obj)
      | StartPoint \<Rightarrow>
          (if otype obj = TLine
           then (case points obj of
                   None \<Rightarrow> Some obj
                 | Some ps \<Rightarrow>
                     (case js_assign ps 0 (position target) of
                        None \<Rightarrow> None
                      | Some ps' \<Rightarrow> Some (obj\<lparr>points := Some ps', position := position target\<rparr>)))
           else Some obj)
      | EndPoint \<Rightarrow>
          (if otype obj = TLine
           then (case points obj of
                   None \<Rightarrow> Some obj
                 | Some ps \<Rightarrow>
                     (case js_assign ps 1 (position target) of
                        None \<Rightarrow> None
                      | Some ps' \<Rightarrow> Some (obj\<lparr>points := Some ps'\<rparr>)))
           else Some obj))"

text \<open>
  The inner loop over \<open>obj.constraints\<close>. The dependent is updated in place, so the
  target is looked up in the collection as it stands: the objects already visited
  (\<open>seen\<close>), the dependent with the updates made so far, and the objects still to
  visit (\<open>rest\<close>).
\<close>

fun applyConstraints ::
  "string \<Rightarrow> DrawingObject list \<Rightarrow> DrawingObject \<Rightarrow> DrawingObject list \<Rightarrow> Constraint list
     \<Rightarrow> DrawingObject option" where
  "applyConstraints objectId seen obj rest [] = Some obj"
| "applyConstraints objectId seen obj rest (c # cs) =
     (if targetId c \<noteq> objectId then applyConstraints objectId seen obj rest cs
      else case find (\<lambda>x. oid x = objectId) (seen @ obj # rest) of
             None \<Rightarrow> applyConstraints objectId seen obj rest cs
           | Some target \<Rightarrow>
               (case followConstraint c target obj of
                  None \<Rightarrow> None
                | Some obj' \<Rightarrow> applyConstraints objectId seen obj' rest cs))"

text \<open>The outer loop \<open>draft.objects.forEach\<close>.\<close>

fun passObjects ::
  "string \<Rightarrow> DrawingObject list \<Rightarrow> DrawingObject list \<Rightarrow> DrawingObject list option" where
  "passObjects objectId seen [] = Some seen"
| "passObjects objectId seen (obj # rest) =
     (case constraints obj of
        None \<Rightarrow> passObjects objectId (seen @ [obj]) rest
      | Some cs \<Rightarrow>
          (case applyConstraints objectId seen obj rest cs of
             None \<Rightarrow> None
           | Some obj' \<Rightarrow> passObjects objectId (seen @ [obj']) rest))"

definition updateConstrainedObjects :: "string \<Rightarrow> AppState \<Rightarrow> AppState option" where
  "updateConstrainedObjects objectId s =
     map_option (\<lambda>objs. s\<lparr>objects := objs\<rparr>) (passObjects objectId [] (objects s))"

section \<open>Geometry engine (src/lib/store.ts, lines 713-746 and 937-1046)\<close>

text \<open>
  Division of JavaScript numbers. A finite quotient is the real quotient; a zero
  divisor gives NaN for a zero dividend and an infinity with the sign of the dividend
  otherwise (the divisors of the modelled code are square roots and products of square
  roots, so a zero divisor is \<open>+0\<close>).
\<close>

datatype quotient = Finite real | PosInfinity | NegInfinity | NotANumber

definition js_divide :: "real \<Rightarrow> real \<Rightarrow> quotient" where
  "js_divide a b =
     (if b \<noteq> 0 then Finite (a / b)
      else if a = 0 then NotANumber
      else if a > 0 then PosInfinity else NegInfinity)"

text \<open>A result that is NaN where the source returns a number or an object of numbers.\<close>

datatype not_a_number = NaN

definition getObjectById :: "string \<Rightarrow> AppState \<Rightarrow> DrawingObject option" where
  "getObjectById i s = find (\<lambda>obj. oid obj = i) (objects s)"

definition typeName :: "ObjType \<Rightarrow> string" where
  "typeName t =
     (case t of
        TPoint \<Rightarrow> ''point'' | TLine \<Rightarrow> ''line'' | TRectangle \<Rightarrow> ''rectangle''
      | TCircle \<Rightarrow> ''circle'' | TText \<Rightarrow> ''text'' | TPolygon \<Rightarrow> ''polygon''
      | TAngle \<Rightarrow> ''angle'' | TPerpendicular \<Rightarrow> ''perpendicular''
      | TParallel \<Rightarrow> ''parallel'' | TMidpoint \<Rightarrow> ''midpoint''
      | TDistance \<Rightarrow> ''distance'' | TPerpBisector \<Rightarrow> ''perp_bisector''
      | TFunction \<Rightarrow> ''function'' | TImage \<Rightarrow> ''image'')"

text \<open>The decimal digits of a natural number, as a template literal prints a count.\<close>

fun string_of_nat :: "nat \<Rightarrow> string" where
  "string_of_nat n =
     (if n < 10 then [char_of (48 + n)]
      else string_of_nat (n div 10) @ [char_of (48 + n mod 10)])"

declare string_of_nat.simps [simp del]

text \<open>
  \<open>type.charAt(0).toUpperCase() + type.slice(1)\<close>; the callers pass the type names,
  which are ASCII.
\<close>

definition capitalize :: "string \<Rightarrow> string" where
  "capitalize t =
     (case t of
        [] \<Rightarrow> []
      | c # cs \<Rightarrow>
          (if (97::nat) \<le> of_char c \<and> of_char c \<le> (122::nat)
           then char_of (of_char c - (32::nat)) # cs else c # cs))"

text \<open>
  The table \<open>shortNames\<close>; the short name of an angle is the Greek letter alpha, here
  its two bytes in UTF-8.
\<close>

definition shortNames :: "string \<Rightarrow> string option" where
  "shortNames t =
     (if t = ''point'' then Some ''P''
      else if t = ''line'' then Some ''L''
      else if t = ''circle'' then Some ''C''
      else if t = ''rectangle'' then Some ''R''
      else if t = ''text'' then Some ''T''
      else if t = ''polygon'' then Some ''Poly''
      else if t = ''angle'' then Some [char_of (206::nat), char_of (177::nat)]
      else if t = ''midpoint'' then Some ''M''
      else None)"

definition generateObjectName :: "string \<Rightarrow> AppState \<Rightarrow> string" where
  "generateObjectName t s =
     (let typeObjects = filter (\<lambda>obj. typeName (otype obj) = t) (objects s);
          count = length typeObjects + 1;
          displayName = capitalize t
      in case shortNames t of
           Some short \<Rightarrow> short @ string_of_nat count
         | None \<Rightarrow> displayName @ string_of_nat count)"

definition calculateMidpoint :: "Point \<Rightarrow> Point \<Rightarrow> Point" where
  "calculateMidpoint pointA pointB =
     \<lparr>px = (px pointA + px pointB) / 2, py = (py pointA + py pointB) / 2\<rparr>"

text \<open>
  The geometry functions compute on exact reals. On the doubles of the source every
  operation rounds, and a square can overflow to an infinity or underflow to zero, so a
  magnitude can be 0 or infinite although the two points differ. The theorems on these
  functions therefore speak of the quotients as the code computes them
  (\<open>js_divide ... = Finite q\<close>), and where they say that a vector has length 1 or
  that a quotient is a cosine they take magnitudes between \<open>1 / 10 ^ 150\<close> and
  \<open>10 ^ 150\<close>, whose squares and products a double holds; what they state exactly
  holds of the doubles up to rounding.

  \<open>calculatePerpendicularLine\<close> returns \<open>null\<close> (\<open>Inr None\<close>) or the payload of a new
  line (\<open>Inr (Some line)\<close>). The payload has no \<open>id\<close> and no \<open>createdAt\<close>; the record
  carries the empty identifier and the timestamp 0 in their place, which \<open>addObject\<close>
  overwrites. When the two base points coincide the unit vector is 0/0 and the returned
  payload has NaN coordinates, which is \<open>Inl NaN\<close> here.
\<close>

definition newLinePayload ::
  "string \<Rightarrow> Point \<Rightarrow> Point \<Rightarrow> string \<Rightarrow> string \<Rightarrow> DrawingObject" where
  "newLinePayload nm startPoint endPoint strokeColor baseId =
     \<lparr>oid = [], otype = TLine, name = nm, visible = True, selected = False,
      showName = Some True, namePosition = None, nameStyleFontSize = None,
      nameStyleColor = None, position = startPoint, stroke = strokeColor,
      strokeWidth = 2, fill = ''transparent'', points = Some [startPoint, endPoint],
      radius = None, width = None, height = None, otext = None, fontSize = None,
      rotation = None, scaleX = None, scaleY = None, flipX = None, flipY = None,
      arrowStart = Some ArrowNone, arrowEnd = Some ArrowNone, angleValue = None,
      baseLineId = Some baseId,
      createdAt = 0, constraints = None\<rparr>"


definition calculateParallelLine ::
  "string \<Rightarrow> Point \<Rightarrow> AppState \<Rightarrow> not_a_number + DrawingObject option" where
  "calculateParallelLine baseId throughPoint s =
     (case getObjectById baseId s of
        None \<Rightarrow> Inr None
      | Some baseLine \<Rightarrow>
          (if otype baseLine \<noteq> TLine then Inr None
           else case points baseLine of
                  None \<Rightarrow> Inr None
                | Some ps \<Rightarrow>
                    (if length ps < 2 then Inr None
                     else
                       (let p1 = ps ! 0; p2 = ps ! 1;
                            dx = px p2 - px p1;
                            dy = py p2 - py p1;
                            len = 100;
                            magnitude = sqrt (dx * dx + dy * dy)
                        in case (js_divide dx magnitude, js_divide dy magnitude) of
                             (Finite unitX, Finite unitY) \<Rightarrow>
                               (let startPoint = \<lparr>px = px throughPoint - unitX * len,
                                                  py = py throughPoint - unitY * len\<rparr>;
                                    endPoint = \<lparr>px = px throughPoint + unitX * len,
                                                py = py throughPoint + unitY * len\<rparr>
                                in Inr (Some (newLinePayload
                                                (generateObjectName ''parallel'' s)
                                                startPoint endPoint ''#10b981'' baseId)))
                           | _ \<Rightarrow> Inl NaN))))"

text \<open>
  \<open>calculateAngle\<close>. Its last two statements, which take the quotient \<open>cosTheta\<close>
  to the angle in degrees, are the function \<open>angleOfCosine\<close>: \<open>Math.min\<close> and
  \<open>Math.max\<close> return NaN for a NaN argument, and so does \<open>Math.acos\<close>; an infinite
  quotient is clamped to 1 or -1.
\<close>

definition angleOfCosine :: "quotient \<Rightarrow> not_a_number + real" where
  "angleOfCosine cosTheta =
     (case cosTheta of
        NotANumber \<Rightarrow> Inl NaN
      | PosInfinity \<Rightarrow> Inr (arccos (max (- 1) (1::real)) * 180 / pi)
      | NegInfinity \<Rightarrow> Inr (arccos (max (- 1) (- 1::real)) * 180 / pi)
      | Finite c \<Rightarrow> Inr (arccos (max (- 1) (min 1 c)) * 180 / pi))"

definition calculateAngle :: "Point \<Rightarrow> Point \<Rightarrow> Point \<Rightarrow> not_a_number + real" where
  "calculateAngle pointA vertex pointC =
     (let vectorAB = \<lparr>px = px pointA - px vertex, py = py pointA - py vertex\<rparr>;
          vectorCB = \<lparr>px = px pointC - px vertex, py = py pointC - py vertex\<rparr>;
          dotProduct = px vectorAB * px vectorCB + py vectorAB * py vectorCB;
          magnitudeAB = sqrt (px vectorAB * px vectorAB + py vectorAB * py vectorAB);
          magnitudeCB = sqrt (px vectorCB * px vectorCB + py vectorCB * py vectorCB);
          cosTheta = js_divide dotProduct (magnitudeAB * magnitudeCB)
      in angleOfCosine cosTheta)"

text \<open>
  The branch of \<open>finishConstruction\<close> for the angle tool (lines 894 to 926), that is
  with \<open>activeTool = 'angle'\<close> and the identifiers \<open>point0\<close>, \<open>point1\<close> in
  \<open>constructionData\<close>: the vertex is the midpoint of the two picked objects, the
  measured angle is stored in \<open>angleValue\<close>, NaN included, and the new object is added
  and committed. (\<open>pointAId\<close> and \<open>pointBId\<close> are not fields of the record.)
\<close>

definition finishAngleConstruction ::
  "string \<Rightarrow> string \<Rightarrow> string \<Rightarrow> int \<Rightarrow> AppState \<Rightarrow> AppState" where
  "finishAngleConstruction point0 point1 newObjectId now s =
     (let s1 =
        (case (if point0 \<noteq> [] \<and> point1 \<noteq> []
               then (getObjectById point0 s, getObjectById point1 s) else (None, None)) of
           (Some pointA, Some pointB) \<Rightarrow>
             (let vertex = calculateMidpoint (position pointA) (position pointB);
                  measured = (case calculateAngle (position pointA) vertex (position pointB) of
                                Inl NaN \<Rightarrow> NaNum
                              | Inr degrees \<Rightarrow> Num degrees)
              in addObject
                   \<lparr>oid = [], otype = TAngle, name = generateObjectName ''angle'' s,
                    visible = True, selected = False, showName = Some True,
                    namePosition = None, nameStyleFontSize = None, nameStyleColor = None,
                    position = vertex, stroke = ''#8b5cf6'', strokeWidth = 2,
                    fill = ''transparent'',
                    points = Some [position pointA, vertex, position pointB],
                    radius = None, width = None, height = None, otext = None,
                    fontSize = None, rotation = None, scaleX = None, scaleY = None,
                    flipX = None, flipY = None, arrowStart = None, arrowEnd = None,
                    angleValue = Some measured, baseLineId = None, createdAt = 0,
                    constraints = None\<rparr>
                   newObjectId now s)
         | _ \<Rightarrow> s)
      in s1\<lparr>constructionMode := CNone, constructionStep := 0\<rparr>)"

section \<open>Code generator: view bounds (src/components/CodeOutput.tsx, lines 56-83 and 406-703)\<close>

text \<open>
  Strings hold UTF-8 bytes. \<open>.length\<close> of a JavaScript string counts UTF-16 code
  units: one for every code point, and one more for a code point beyond the basic plane,
  which UTF-8 writes with a lead byte of 240 or more. Continuation bytes (128 to 191)
  start no code point.
\<close>

definition js_length :: "string \<Rightarrow> nat" where
  "js_length str =
     length (filter (\<lambda>c. \<not> ((128::nat) \<le> of_char c \<and> of_char c < (192::nat))) str)
     + length (filter (\<lambda>c. (240::nat) \<le> of_char c) str)"

text \<open>\<open>v || d\<close> on an optional number: \<open>undefined\<close> and 0 are falsy.\<close>

definition orDefault :: "real option \<Rightarrow> real \<Rightarrow> real" where
  "orDefault v d = (case v of None \<Rightarrow> d | Some r \<Rightarrow> if r = 0 then d else r)"

definition truthy :: "bool option \<Rightarrow> bool" where
  "truthy b = (b = Some True)"

text \<open>
  The number that \<open>v.toFixed(d)\<close> denotes: the sign is set aside, the magnitude is
  rounded to \<open>d\<close> decimals, a tie going up. (On exact reals; the binary expansion of a
  JavaScript number can turn what reads as a tie into a non-tie.)
\<close>

definition toFixedValue :: "nat \<Rightarrow> real \<Rightarrow> real" where
  "toFixedValue d v =
     (if v < 0 then - (of_int \<lfloor>- v * 10 ^ d + 1 / 2\<rfloor> / 10 ^ d)
      else of_int \<lfloor>v * 10 ^ d + 1 / 2\<rfloor> / 10 ^ d)"

text \<open>
  \<open>parseFloat(pixelToTikZ(pixels))\<close>: \<open>pixelToTikZ\<close> prints the value with 0, 1 or 2
  decimals and every caller in \<open>calculateBounds\<close> parses the string back at once, so
  the model keeps the number printed.
\<close>

definition pixelToTikZValue :: "real \<Rightarrow> real" where
  "pixelToTikZValue pixels =
     (let v = pixels / 28
      in if v = of_int \<lfloor>v\<rfloor> then toFixedValue 0 v
         else if v * 2 = of_int \<lfloor>v * 2\<rfloor> then toFixedValue 1 v
         else toFixedValue 2 v)"

definition getOriginOffset :: Point where
  "getOriginOffset = \<lparr>px = 0, py = 0\<rparr>"

record Bounds =
  minX :: real
  maxX :: real
  minY :: real
  maxY :: real

text \<open>
  The accumulators \<open>minX, maxX, minY, maxY\<close> start at \<open>Infinity, -Infinity, Infinity,
  -Infinity\<close>. Every visible object sets \<open>hasVisibleObjects\<close> and updates all four
  with finite numbers, so they are infinite exactly as long as \<open>hasVisibleObjects\<close> is
  false: the model keeps them as \<open>Bounds option\<close>, \<open>None\<close> for that initial state.
  \<open>widen acc a b c d\<close> is
  \<open>minX = Math.min(minX, a); maxX = Math.max(maxX, b); minY = Math.min(minY, c);
  maxY = Math.max(maxY, d)\<close>.
\<close>

definition widen :: "Bounds option \<Rightarrow> real \<Rightarrow> real \<Rightarrow> real \<Rightarrow> real \<Rightarrow> Bounds option" where
  "widen acc a b c d =
     (case acc of
        None \<Rightarrow> Some \<lparr>minX = a, maxX = b, minY = c, maxY = d\<rparr>
      | Some B \<Rightarrow> Some \<lparr>minX = min (minX B) a, maxX = max (maxX B) b,
                         minY = min (minY B) c, maxY = max (maxY B) d\<rparr>)"

text \<open>The default position of the name label, by type.\<close>

definition defaultNamePosition :: "DrawingObject \<Rightarrow> Point" where
  "defaultNamePosition obj =
     (let objX = px (position obj); objY = py (position obj)
      in case otype obj of
           TCircle \<Rightarrow> \<lparr>px = objX, py = objY - orDefault (radius obj) 30 - 20\<rparr>
         | TRectangle \<Rightarrow> \<lparr>px = objX + orDefault (width obj) 80 + 10,
                          py = objY + orDefault (height obj) 60 / 2\<rparr>
         | TPoint \<Rightarrow> \<lparr>px = objX + 10, py = objY - 15\<rparr>
         | TImage \<Rightarrow> \<lparr>px = objX + orDefault (width obj) 200 / 2,
                      py = objY + orDefault (height obj) 150 + 15\<rparr>
         | TText \<Rightarrow> \<lparr>px = objX, py = objY - orDefault (fontSize obj) 16 / 2 - 15\<rparr>
         | _ \<Rightarrow> \<lparr>px = objX, py = objY - 15\<rparr>)"

text \<open>\<open>nameExtents\<close>: the anchor, widened by the footprint of the name when it is shown.\<close>

definition nameExtents :: "DrawingObject \<Rightarrow> Bounds" where
  "nameExtents obj =
     (let objX = px (position obj); objY = py (position obj)
      in if truthy (showName obj)
         then (let namePos = (case namePosition obj of
                                Some np \<Rightarrow> \<lparr>px = objX + px np, py = objY + py np\<rparr>
                              | None \<Rightarrow> defaultNamePosition obj);
                   nameX = px namePos; nameY = py namePos;
                   nameLength = (if js_length (name obj) = 0 then 4
                                 else real (js_length (name obj)));
                   fontSz = orDefault (nameStyleFontSize obj) 12;
                   nameWidth = nameLength * fontSz * 0.7;
                   nameHeight = fontSz * 1.2
               in \<lparr>minX = min objX (nameX - nameWidth / 2),
                   maxX = max objX (nameX + nameWidth / 2),
                   minY = min objY (nameY - nameHeight / 2),
                   maxY = max objY (nameY + nameHeight / 2)\<rparr>)
         else \<lparr>minX = objX, maxX = objX, minY = objY, maxY = objY\<rparr>)"

text \<open>The loop \<open>obj.points.forEach\<close> of the multi-point branch.\<close>

fun widenPoints :: "Bounds option \<Rightarrow> Point list \<Rightarrow> Bounds option" where
  "widenPoints acc [] = acc"
| "widenPoints acc (p # ps) = widenPoints (widen acc (px p) (px p) (py p) (py p)) ps"

text \<open>
  One round of \<open>objects.forEach\<close>. (The loop also collects \<open>naturalBoundaries\<close>; the
  value returned by \<open>calculateBounds\<close> does not depend on them.)
\<close>

definition visitObject :: "Bounds option \<Rightarrow> DrawingObject \<Rightarrow> Bounds option" where
  "visitObject acc obj =
     (if \<not> visible obj then acc
      else
        (let objX = px (position obj); objY = py (position obj);
             ne = nameExtents obj;
             multiPoint =
               (let acc1 = (case points obj of
                              None \<Rightarrow> widen acc objX objX objY objY
                            | Some ps \<Rightarrow>
                                (if length ps > 0 then widenPoints acc ps
                                 else widen acc objX objX objY objY))
                in widen acc1 (minX ne) (maxX ne) (minY ne) (maxY ne));
             pointLike =
               (let pointRadius = (if strokeWidth obj = 0 then 2 else strokeWidth obj) * 0.6
                in widen acc (min (objX - pointRadius) (minX ne))
                             (max (objX + pointRadius) (maxX ne))
                             (min (objY - pointRadius) (minY ne))
                             (max (objY + pointRadius) (maxY ne)));
             textLike =
               (let fontSz = orDefault (fontSize obj) 16;
                    textLength = (case otext obj of
                                    None \<Rightarrow> 4
                                  | Some t \<Rightarrow> if js_length t = 0 then 4 else real (js_length t));
                    textWidth = textLength * fontSz * 0.6;
                    textHeight = fontSz;
                    textCenterX = objX; textCenterY = objY
                in widen acc (min (textCenterX - textWidth / 2) (minX ne))
                             (max (textCenterX + textWidth / 2) (maxX ne))
                             (min (textCenterY - textHeight / 2) (minY ne))
                             (max (textCenterY + textHeight / 2) (maxY ne)))
         in case otype obj of
              TCircle \<Rightarrow>
                (let r = orDefault (radius obj) 30
                 in widen acc (min (objX - r) (minX ne)) (max (objX + r) (maxX ne))
                              (min (objY - r) (minY ne)) (max (objY + r) (maxY ne)))
            | TRectangle \<Rightarrow>
                (let w = orDefault (width obj) 80; h = orDefault (height obj) 60
                 in widen acc (min objX (minX ne)) (max (objX + w) (maxX ne))
                              (min objY (minY ne)) (max (objY + h) (maxY ne)))
            | TPoint \<Rightarrow> pointLike
            | TMidpoint \<Rightarrow> pointLike
            | TLine \<Rightarrow> multiPoint
            | TPolygon \<Rightarrow> multiPoint
            | TAngle \<Rightarrow> multiPoint
            | TPerpendicular \<Rightarrow> multiPoint
            | TParallel \<Rightarrow> multiPoint
            | TPerpBisector \<Rightarrow> multiPoint
            | TFunction \<Rightarrow> multiPoint
            | TText \<Rightarrow> textLike
            | TDistance \<Rightarrow> textLike
            | TImage \<Rightarrow>
                (let imageWidth = orDefault (width obj) 200;
                     imageHeight = orDefault (height obj) 150;
                     sX = \<bar>orDefault (scaleX obj) 1 * (if truthy (flipX obj) then - 1 else 1)\<bar>;
                     sY = \<bar>orDefault (scaleY obj) 1 * (if truthy (flipY obj) then - 1 else 1)\<bar>;
                     rot = - (orDefault (rotation obj) 0) * pi / 180;
                     cosR = \<bar>cos rot\<bar>;
                     sinR = \<bar>sin rot\<bar>;
                     scaledWidth = imageWidth * sX;
                     scaledHeight = imageHeight * sY;
                     envelopeWidth = scaledWidth * cosR + scaledHeight * sinR;
                     envelopeHeight = scaledWidth * sinR + scaledHeight * cosR;
                     canvasCenterX = objX + imageWidth / 2;
                     canvasCenterY = objY + imageHeight / 2;
                     imageMinX = canvasCenterX - envelopeWidth / 2;
                     imageMaxX = canvasCenterX + envelopeWidth / 2;
                     imageMinY = canvasCenterY - envelopeHeight / 2;
                     imageMaxY = canvasCenterY + envelopeHeight / 2
                 in widen acc (min imageMinX (minX ne)) (max imageMaxX (maxX ne))
                              (min imageMinY (minY ne)) (max imageMaxY (maxY ne)))))"

text \<open>\<open>roundToNice\<close>: outward rounding to a step chosen by magnitude.\<close>

definition roundToNice :: "real \<Rightarrow> bool \<Rightarrow> real" where
  "roundToNice v isMin =
     (let absValue = \<bar>v\<bar>;
          step = (if absValue < 1 then 0.5
                  else if absValue < 5 then 1
                  else if absValue < 20 then 2
                  else if absValue < 100 then 5
                  else 10)
      in if isMin then of_int \<lfloor>v / step\<rfloor> * step else of_int \<lceil>v / step\<rceil> * step)"

definition defaultBounds :: Bounds where
  "defaultBounds = \<lparr>minX = - 3, maxX = 3, minY = - 3, maxY = 3\<rparr>"

text \<open>The minimum range \<open>minRange\<close> of the source.\<close>

definition minRange :: real where
  "minRange = 4"

text \<open>
  The part of \<open>calculateBounds\<close> after the loop is written as two functions: the
  padding and outward rounding of one axis (the source repeats it for \<open>X\<close> and for
  \<open>Y\<close>), and the final check against the minimum range with its three \<open>return\<close>
  statements.
\<close>

definition padAndRound :: "real \<Rightarrow> real \<Rightarrow> real \<times> real" where
  "padAndRound tikzMin tikzMax =
     (let range = tikzMax - tikzMin;
          basePadding = 1;
          padding = max basePadding (range * 0.1)
      in (roundToNice (tikzMin - padding) True, roundToNice (tikzMax + padding) False))"

definition ensureMinRange :: "real \<Rightarrow> real \<Rightarrow> real \<Rightarrow> real \<Rightarrow> Bounds" where
  "ensureMinRange finalMinX finalMaxX finalMinY finalMaxY =
     (let finalRangeX = finalMaxX - finalMinX;
          finalRangeY = finalMaxY - finalMinY
      in if finalRangeX < minRange
         then (let midX = (finalMinX + finalMaxX) / 2
               in \<lparr>minX = midX - minRange / 2, maxX = midX + minRange / 2,
                   minY = finalMinY, maxY = finalMaxY\<rparr>)
         else if finalRangeY < minRange
         then (let midY = (finalMinY + finalMaxY) / 2
               in \<lparr>minX = finalMinX, maxX = finalMaxX,
                   minY = midY - minRange / 2, maxY = midY + minRange / 2\<rparr>)
         else \<lparr>minX = finalMinX, maxX = finalMaxX, minY = finalMinY, maxY = finalMaxY\<rparr>)"

definition calculateBounds :: "DrawingObject list \<Rightarrow> Bounds" where
  "calculateBounds objs =
     (if length objs = 0 then defaultBounds
      else case foldl visitObject None objs of
             None \<Rightarrow> defaultBounds
           | Some canvasB \<Rightarrow>
               (let off = getOriginOffset;
                    tikzMinX = pixelToTikZValue (minX canvasB - px off);
                    tikzMaxX = pixelToTikZValue (maxX canvasB - px off);
                    tikzMinY = pixelToTikZValue (- (maxY canvasB - py off));
                    tikzMaxY = pixelToTikZValue (- (minY canvasB - py off));
                    finalX = padAndRound tikzMinX tikzMaxX;
                    finalY = padAndRound tikzMinY tikzMaxY
                in ensureMinRange (fst finalX) (snd finalX) (fst finalY) (snd finalY)))"

section \<open>Code generator: the document (src/components/CodeOutput.tsx, lines 705-966)\<close>





























section \<open>Sample data used at concrete inputs\<close>

definition samplePoint :: DrawingObject where
  "samplePoint =
     \<lparr>oid = ''preview'', otype = TPoint, name = ''P1'', visible = True, selected = False,
      showName = Some False, namePosition = None, nameStyleFontSize = None,
      nameStyleColor = None, position = \<lparr>px = 7, py = 7\<rparr>, stroke = ''#3b82f6'',
      strokeWidth = 2, fill = ''#3b82f6'', points = None, radius = None, width = None,
      height = None, otext = None, fontSize = None, rotation = None, scaleX = None,
      scaleY = None, flipX = None, flipY = None, arrowStart = None, arrowEnd = None,
      angleValue = None, baseLineId = None, createdAt = 0, constraints = None\<rparr>"

text \<open>The point as \<open>addObject\<close> stores it: new identifier, timestamp, selected.\<close>

definition addedPoint :: DrawingObject where
  "addedPoint = samplePoint\<lparr>oid := ''a1'', createdAt := 1, selected := True\<rparr>"





text \<open>
  The store in which the angle tool was finished with the one point \<open>a1\<close> picked
  twice.
\<close>

definition nanAngleStore :: AppState where
  "nanAngleStore =
     finishAngleConstruction ''a1'' ''a1'' ''g1'' 2 (addObject samplePoint ''a1'' 1 initialState)"

text \<open>The store after adding the point to the initial state and undoing.\<close>

definition undoneAdd :: AppState where
  "undoneAdd = initialState\<lparr>history := [[], [addedPoint]], historyIndex := 0\<rparr>"

text \<open>The store after adding, undoing and redoing.\<close>

definition redoneAdd :: AppState where
  "redoneAdd = initialState\<lparr>objects := [addedPoint\<lparr>selected := False\<rparr>],
                              history := [[], [addedPoint]], historyIndex := 1\<rparr>"

text \<open>The store after adding two points to the initial state.\<close>

definition twoAdded :: AppState where
  "twoAdded =
     initialState\<lparr>objects := [addedPoint\<lparr>selected := False\<rparr>,
                              samplePoint\<lparr>oid := ''b2'', createdAt := 2, selected := True\<rparr>],
       selectedObjectIds := [''b2''],
       history := [[], [addedPoint],
                   [addedPoint\<lparr>selected := False\<rparr>,
                    samplePoint\<lparr>oid := ''b2'', createdAt := 2, selected := True\<rparr>]],
       historyIndex := 2\<rparr>"

text \<open>
  A triangle as the canvas leaves it after a drag: the anchor is reset to the origin and
  the vertices are absolute.
\<close>

definition draggedPolygon :: DrawingObject where
  "draggedPolygon =
     samplePoint\<lparr>oid := ''t1'', otype := TPolygon, name := ''Poly1'',
                 position := \<lparr>px = 0, py = 0\<rparr>,
                 points := Some [\<lparr>px = 50, py = 50\<rparr>, \<lparr>px = 80, py = 50\<rparr>,
                                 \<lparr>px = 50, py = 80\<rparr>]\<rparr>"

definition sampleLine :: DrawingObject where
  "sampleLine =
     samplePoint\<lparr>oid := ''l1'', otype := TLine, name := ''L1'',
                 position := \<lparr>px = 200, py = 200\<rparr>,
                 points := Some [\<lparr>px = 200, py = 200\<rparr>, \<lparr>px = 90, py = 10\<rparr>]\<rparr>"

definition hiddenPoint :: DrawingObject where
  "hiddenPoint = samplePoint\<lparr>oid := ''h1'', visible := False\<rparr>"

definition boxScene :: AppState where
  "boxScene = initialState\<lparr>objects := [addedPoint, sampleLine, hiddenPoint, draggedPolygon]\<rparr>"

text \<open>
  A moved point and a line whose end point follows it at an offset of (5,5); a circle
  whose centre follows the point at the same offset.
\<close>

definition movedPoint :: DrawingObject where
  "movedPoint = samplePoint\<lparr>oid := ''p'', position := \<lparr>px = 10, py = 10\<rparr>\<rparr>"

definition followerLine :: DrawingObject where
  "followerLine =
     samplePoint\<lparr>oid := ''l'', otype := TLine, name := ''L1'',
                 position := \<lparr>px = 0, py = 0\<rparr>,
                 points := Some [\<lparr>px = 0, py = 0\<rparr>, \<lparr>px = 1, py = 1\<rparr>],
                 constraints := Some [\<lparr>ctype = EndPoint, targetId = ''p'',
                                       offset = Some \<lparr>px = 5, py = 5\<rparr>\<rparr>]\<rparr>"

definition followerCircle :: DrawingObject where
  "followerCircle =
     samplePoint\<lparr>oid := ''c'', otype := TCircle, name := ''C1'',
                 position := \<lparr>px = 0, py = 0\<rparr>, radius := Some 30,
                 constraints := Some [\<lparr>ctype = Center, targetId = ''p'',
                                       offset = Some \<lparr>px = 5, py = 5\<rparr>\<rparr>]\<rparr>"

definition danglingLine :: DrawingObject where
  "danglingLine =
     followerLine\<lparr>oid := ''d'', constraints := Some [\<lparr>ctype = EndPoint, targetId = ''gone'',
                                          offset = None\<rparr>]\<rparr>"






section \<open>Lemmas on the history operations\<close>

lemma js_slice_prefix: "0 \<le> k \<Longrightarrow> js_slice xs 0 k = take (nat k) xs"
  by (auto simp: js_slice_def js_rel_index_def Let_def min_def)

lemma js_slice_from_neg:
  "0 < m \<Longrightarrow> m < int (length xs) \<Longrightarrow> js_slice_from xs (- m) = drop (length xs - nat m) xs"
  by (auto simp: js_slice_from_def js_slice_def js_rel_index_def Let_def max_def nat_diff_distrib')

lemma js_slice_from_zero: "js_slice_from xs 0 = xs"
  by (simp add: js_slice_from_def js_slice_def js_rel_index_def)

lemma saveToHistory_history:
  assumes "hist_inv s"
  shows "history (saveToHistory s) =
           (if int (length (truncated s)) > maxHistorySize s
            then js_slice_from (truncated s) (- maxHistorySize s) else truncated s)"
proof -
  have "(if historyIndex s < int (length (history s)) - 1
         then js_slice (history s) 0 (historyIndex s + 1) else history s)
        = take (nat (historyIndex s) + 1) (history s)"
    using assms by (auto simp: hist_inv_def js_slice_prefix nat_add_distrib)
  then show ?thesis
    by (simp add: saveToHistory_def Let_def truncated_def)
qed

lemma saveToHistory_index:
  "historyIndex (saveToHistory s) = int (length (history (saveToHistory s))) - 1"
  by (simp add: saveToHistory_def Let_def)

lemma saveToHistory_objects: "objects (saveToHistory s) = objects s"
  by (simp add: saveToHistory_def Let_def)

lemma cap_nonempty:
  assumes "0 \<le> m" "h \<noteq> []"
  shows "(if int (length h) > m then js_slice_from h (- m) else h) \<noteq> []"
proof (cases "m = 0")
  case True then show ?thesis using assms by (simp add: js_slice_from_zero)
next
  case False
  then show ?thesis using assms by (auto simp: js_slice_from_neg)
qed

lemma cap_last:
  assumes "0 \<le> m" "h \<noteq> []"
  shows "last (if int (length h) > m then js_slice_from h (- m) else h) = last h"
proof (cases "m = 0")
  case True then show ?thesis using assms by (simp add: js_slice_from_zero)
next
  case False
  then show ?thesis using assms by (auto simp: js_slice_from_neg)
qed

lemma cap_length_le:
  "length (if int (length h) > m then js_slice_from h (- m) else h) \<le> length h"
  by (auto simp: js_slice_from_def js_slice_def Let_def intro: min.coboundedI1)

lemma saveToHistory_shape:
  "\<exists>h1. history (saveToHistory s) =
     (if int (length (h1 @ [deepCopy (objects s)])) > maxHistorySize s
      then js_slice_from (h1 @ [deepCopy (objects s)]) (- maxHistorySize s)
      else h1 @ [deepCopy (objects s)])"
  unfolding saveToHistory_def Let_def by auto

lemma saveToHistory_nonempty:
  "0 \<le> maxHistorySize s \<Longrightarrow> history (saveToHistory s) \<noteq> []"
proof -
  assume m: "0 \<le> maxHistorySize s"
  obtain h1 where h: "history (saveToHistory s) =
     (if int (length (h1 @ [deepCopy (objects s)])) > maxHistorySize s
      then js_slice_from (h1 @ [deepCopy (objects s)]) (- maxHistorySize s)
      else h1 @ [deepCopy (objects s)])"
    using saveToHistory_shape by blast
  show ?thesis unfolding h by (rule cap_nonempty[OF m]) simp
qed

lemma saveToHistory_last:
  "0 \<le> maxHistorySize s \<Longrightarrow> last (history (saveToHistory s)) = deepCopy (objects s)"
proof -
  assume m: "0 \<le> maxHistorySize s"
  obtain h1 where h: "history (saveToHistory s) =
     (if int (length (h1 @ [deepCopy (objects s)])) > maxHistorySize s
      then js_slice_from (h1 @ [deepCopy (objects s)]) (- maxHistorySize s)
      else h1 @ [deepCopy (objects s)])"
    using saveToHistory_shape by blast
  have "last (history (saveToHistory s)) = last (h1 @ [deepCopy (objects s)])"
    unfolding h by (rule cap_last[OF m]) simp
  then show ?thesis by simp
qed

lemma saveToHistory_inv: "0 \<le> maxHistorySize s \<Longrightarrow> hist_inv (saveToHistory s)"
  using saveToHistory_nonempty[of s] 
  by (simp add: hist_inv_def saveToHistory_index)

lemma saveToHistory_current:
  assumes "0 \<le> maxHistorySize s"
  shows "js_index (history (saveToHistory s)) (historyIndex (saveToHistory s))
           = Some (deepCopy (objects (saveToHistory s)))"
proof -
  let ?h = "history (saveToHistory s)"
  have ne: "?h \<noteq> []" using assms by (rule saveToHistory_nonempty)
  then have "?h ! (length ?h - 1) = last ?h" by (simp add: last_conv_nth)
  moreover have "nat (int (length ?h) - 1) = length ?h - 1" by simp
  ultimately show ?thesis using ne assms
    by (simp add: js_index_def saveToHistory_index saveToHistory_last saveToHistory_objects)
qed

lemma saveToHistory_maxHistorySize: "maxHistorySize (saveToHistory s) = maxHistorySize s"
  by (simp add: saveToHistory_def Let_def)

lemma undo_ok:
  assumes "hist_inv s"
  shows "undo s = (if historyIndex s > 0
     then Inr (s\<lparr>historyIndex := historyIndex s - 1,
                 objects := unselectAll (deepCopy (history s ! nat (historyIndex s - 1))),
                 selectedObjectIds := []\<rparr>) else Inr s)"
  using assms by (simp add: undo_def hist_inv_def js_index_def deepCopy_opt_def Let_def)

lemma redo_ok:
  assumes "hist_inv s"
  shows "redo s = (if historyIndex s < int (length (history s)) - 1
     then Inr (s\<lparr>historyIndex := historyIndex s + 1,
                 objects := unselectAll (deepCopy (history s ! nat (historyIndex s + 1))),
                 selectedObjectIds := []\<rparr>) else Inr s)"
  using assms by (simp add: redo_def hist_inv_def js_index_def deepCopy_opt_def Let_def)


lemma selectObject_hist [simp]:
  "history (selectObject i b s) = history s"
  "historyIndex (selectObject i b s) = historyIndex s"
  "maxHistorySize (selectObject i b s) = maxHistorySize s"
  by (simp_all add: selectObject_def Let_def)

lemma addObject_as_save:
  "\<exists>s0. addObject d i t s = saveToHistory s0 \<and> history s0 = history s
     \<and> historyIndex s0 = historyIndex s \<and> maxHistorySize s0 = maxHistorySize s
     \<and> length (objects s0) = Suc (length (objects s))"
proof (intro exI conjI)
  show "addObject d i t s = saveToHistory
     (selectObject i False (s\<lparr>objects := objects s @ [d\<lparr>oid := i, createdAt := t\<rparr>]\<rparr>))"
    by (simp add: addObject_def Let_def)
qed (simp_all add: selectObject_def mirrorSelection_def Let_def)

lemma updateObject_as_save:
  "\<exists>s0. updateObject i u s = saveToHistory s0 \<and> history s0 = history s
     \<and> historyIndex s0 = historyIndex s \<and> maxHistorySize s0 = maxHistorySize s"
proof (intro exI conjI)
  show "updateObject i u s = saveToHistory
       (case findIndex (\<lambda>obj. oid obj = i) (objects s) of
          None \<Rightarrow> s
        | Some index \<Rightarrow> s\<lparr>objects := (objects s)[index := u (objects s ! index)]\<rparr>)"
    by (simp add: updateObject_def)
qed (simp_all split: option.splits)

lemma deleteObject_as_save:
  "\<exists>s0. deleteObject i s = saveToHistory s0 \<and> history s0 = history s
     \<and> historyIndex s0 = historyIndex s \<and> maxHistorySize s0 = maxHistorySize s"
proof (intro exI conjI)
  show "deleteObject i s = saveToHistory
       (s\<lparr>objects := filter (\<lambda>obj. oid obj \<noteq> i) (objects s),
          selectedObjectIds := filter (\<lambda>selectedId. selectedId \<noteq> i) (selectedObjectIds s)\<rparr>)"
    by (simp add: deleteObject_def)
qed simp_all

lemma hist_inv_cong:
  "history s0 = history s \<Longrightarrow> historyIndex s0 = historyIndex s \<Longrightarrow> hist_inv s0 = hist_inv s"
  by (simp add: hist_inv_def)

lemma undo_inv: "hist_inv s \<Longrightarrow> \<exists>s'. undo s = Inr s' \<and> hist_inv s' \<and> maxHistorySize s' = maxHistorySize s"
  by (auto simp: undo_ok hist_inv_def)

lemma redo_inv: "hist_inv s \<Longrightarrow> \<exists>s'. redo s = Inr s' \<and> hist_inv s' \<and> maxHistorySize s' = maxHistorySize s"
  by (auto simp: redo_ok hist_inv_def)

lemma save_committed:
  assumes "0 \<le> maxHistorySize s"
  shows "hist_inv (saveToHistory s) \<and> maxHistorySize (saveToHistory s) = maxHistorySize s
     \<and> js_index (history (saveToHistory s)) (historyIndex (saveToHistory s))
         = Some (deepCopy (objects (saveToHistory s)))"
  using assms by (simp add: saveToHistory_inv saveToHistory_maxHistorySize saveToHistory_current)

lemma save_discards:
  assumes "hist_inv s" and "0 \<le> maxHistorySize s"
  shows "(let s' = saveToHistory s;
              h = take (nat (historyIndex s) + 1) (history s) @ [deepCopy (objects s')]
          in history s' = (if int (length h) > maxHistorySize s
                           then js_slice_from h (- maxHistorySize s) else h)
             \<and> int (length (history s')) \<le> historyIndex s + 2
             \<and> \<not> canRedo s')"
proof -
  have len: "length (truncated s) = nat (historyIndex s) + 2"
    using assms(1) by (auto simp: truncated_def hist_inv_def)
  have "int (length (history (saveToHistory s))) \<le> int (length (truncated s))"
    unfolding saveToHistory_history[OF assms(1)] using cap_length_le[of "maxHistorySize s" "truncated s"]
    by simp
  then have "int (length (history (saveToHistory s))) \<le> historyIndex s + 2"
    using len assms(1) by (simp add: hist_inv_def)
  then show ?thesis
    using saveToHistory_history[OF assms(1)]
    by (simp add: Let_def truncated_def saveToHistory_objects canRedo_def saveToHistory_index)
qed


lemma jsonNumber_idem: "jsonNumber (jsonNumber v) = jsonNumber v"
  by (cases v) (simp_all add: jsonNumber_def)

lemma jsonCopy_idem: "jsonCopy (jsonCopy obj) = jsonCopy obj"
  by (cases "angleValue obj") (simp_all add: jsonCopy_def jsonNumber_idem)

lemma deepCopy_idem: "deepCopy (deepCopy objs) = deepCopy objs"
  by (simp add: deepCopy_def jsonCopy_idem)


lemma length_unselectAll [simp]: "length (unselectAll objs) = length objs"
  by (simp add: unselectAll_def)

lemma deepCopy_unselectAll: "deepCopy (unselectAll objs) = unselectAll (deepCopy objs)"
  by (simp add: deepCopy_def unselectAll_def jsonCopy_def)

lemma unselectAll_idem: "unselectAll (unselectAll objs) = unselectAll objs"
  by (simp add: unselectAll_def)

lemma unselectAll_mirror: "unselectAll (mirrorSelection ids objs) = unselectAll objs"
  by (simp add: unselectAll_def mirrorSelection_def)

lemma unselectAll_deepCopy_mirror:
  "unselectAll (deepCopy (mirrorSelection ids objs)) = unselectAll (deepCopy objs)"
  by (simp add: unselectAll_def mirrorSelection_def deepCopy_def jsonCopy_def)

text \<open>The JSON round trip leaves a collection without NaN and infinities as it is.\<close>

lemma jsonCopy_stable: "jsonStable obj \<Longrightarrow> jsonCopy obj = obj"
proof (cases "angleValue obj")
  case None
  then show ?thesis by (simp add: jsonCopy_def)
next
  case (Some v)
  assume "jsonStable obj"
  then have "jsonNumber v = v" using Some by (cases v) (simp_all add: jsonStable_def jsonNumber_def)
  then have "obj\<lparr>angleValue := Some (jsonNumber v)\<rparr> = obj" using Some by simp
  then show ?thesis using Some by (simp add: jsonCopy_def)
qed

lemma deepCopy_stable: "\<forall>obj \<in> set objs. jsonStable obj \<Longrightarrow> deepCopy objs = objs"
  by (induction objs) (simp_all add: deepCopy_def jsonCopy_stable)

text \<open>Where the live collection and the snapshot at the cursor agree.\<close>

lemma synced_initial: "synced initialState"
  by (simp add: synced_def initialState_def)

lemma synced_clearCanvas: "synced (clearCanvas s)"
  by (simp add: synced_def clearCanvas_def)

lemma synced_saveToHistory:
  assumes "0 \<le> maxHistorySize s"
  shows "synced (saveToHistory s)"
proof -
  let ?s = "saveToHistory s"
  have "js_index (history ?s) (historyIndex ?s) = Some (deepCopy (objects ?s))"
    using assms by (rule saveToHistory_current)
  then have "history ?s ! nat (historyIndex ?s) = deepCopy (objects ?s)"
    by (simp add: js_index_def split: if_splits)
  then show ?thesis by (simp add: synced_def deepCopy_idem)
qed

lemma synced_addObject: "0 \<le> maxHistorySize s \<Longrightarrow> synced (addObject d i t s)"
  using addObject_as_save[of d i t s] synced_saveToHistory by metis

lemma synced_updateObject: "0 \<le> maxHistorySize s \<Longrightarrow> synced (updateObject i u s)"
  using updateObject_as_save[of i u s] synced_saveToHistory by metis

lemma synced_deleteObject: "0 \<le> maxHistorySize s \<Longrightarrow> synced (deleteObject i s)"
  using deleteObject_as_save[of i s] synced_saveToHistory by metis

lemma synced_undo: "hist_inv s \<Longrightarrow> synced s \<Longrightarrow> undo s = Inr s' \<Longrightarrow> synced s'"
  by (auto simp: undo_ok synced_def deepCopy_unselectAll unselectAll_idem deepCopy_idem
      split: if_splits)

lemma synced_redo: "hist_inv s \<Longrightarrow> synced s \<Longrightarrow> redo s = Inr s' \<Longrightarrow> synced s'"
  by (auto simp: redo_ok synced_def deepCopy_unselectAll unselectAll_idem deepCopy_idem
      split: if_splits)

lemma unselectAll_deepCopy_flags:
  "unselectAll (deepCopy (map (\<lambda>obj. obj\<lparr>selected := f obj\<rparr>) objs)) = unselectAll (deepCopy objs)"
  by (simp add: unselectAll_def deepCopy_def jsonCopy_def)

lemma synced_selection:
  assumes "synced s"
  shows "synced (selectObject i b s)" and "synced (selectObjects ids s)"
    and "synced (clearSelection s)" and "synced (selectAll s)"
proof -
  show "synced (selectObject i b s)"
    using assms by (simp add: synced_def selectObject_def Let_def unselectAll_deepCopy_mirror)
  show "synced (selectObjects ids s)"
    using assms by (simp add: synced_def selectObjects_def unselectAll_deepCopy_mirror)
  show "synced (clearSelection s)"
    using assms
    by (simp add: synced_def clearSelection_def deepCopy_unselectAll unselectAll_idem)
  show "synced (selectAll s)"
    using assms by (simp add: synced_def selectAll_def unselectAll_deepCopy_flags)
qed

section \<open>Undo and redo around an add (claim C1)\<close>

lemma addObject_initial:
  "addObject samplePoint ''a1'' 1 initialState
     = initialState\<lparr>objects := [addedPoint], selectedObjectIds := [''a1''],
                     history := [[], [addedPoint]], historyIndex := 1\<rparr>"
  by (simp add: addObject_def Let_def selectObject_def mirrorSelection_def addedPoint_def
        saveToHistory_def initialState_def js_slice_from_def js_slice_def js_rel_index_def
        deepCopy_def jsonCopy_def samplePoint_def)


lemma addObject_objects:
  "objects (addObject d i t s) = mirrorSelection [i] (objects s @ [d\<lparr>oid := i, createdAt := t\<rparr>])"
  by (simp add: addObject_def Let_def selectObject_def saveToHistory_objects)





section \<open>The history invariant (claim C2)\<close>

lemma nanAngleStore_objects:
  "\<exists>nm. objects nanAngleStore =
     [addedPoint\<lparr>selected := False\<rparr>,
      \<lparr>oid = ''g1'', otype = TAngle, name = nm, visible = True, selected = True,
       showName = Some True, namePosition = None, nameStyleFontSize = None,
       nameStyleColor = None, position = \<lparr>px = 7, py = 7\<rparr>, stroke = ''#8b5cf6'',
       strokeWidth = 2, fill = ''transparent'',
       points = Some [\<lparr>px = 7, py = 7\<rparr>, \<lparr>px = 7, py = 7\<rparr>, \<lparr>px = 7, py = 7\<rparr>],
       radius = None, width = None, height = None, otext = None, fontSize = None,
       rotation = None, scaleX = None, scaleY = None, flipX = None, flipY = None,
       arrowStart = None, arrowEnd = None, angleValue = Some NaNum, baseLineId = None,
       createdAt = 2, constraints = None\<rparr>]"
proof -
  have g: "getObjectById ''a1'' (addObject samplePoint ''a1'' 1 initialState) = Some addedPoint"
    unfolding addObject_initial by (simp add: getObjectById_def initialState_def addedPoint_def)
  have p: "position addedPoint = \<lparr>px = 7, py = 7\<rparr>"
    by (simp add: addedPoint_def samplePoint_def)
  have m: "calculateMidpoint \<lparr>px = 7, py = 7\<rparr> \<lparr>px = 7, py = 7\<rparr> = \<lparr>px = 7, py = 7\<rparr>"
    by (simp add: calculateMidpoint_def)
  have a: "calculateAngle \<lparr>px = 7, py = 7\<rparr> \<lparr>px = 7, py = 7\<rparr> \<lparr>px = 7, py = 7\<rparr> = Inl NaN"
    by (simp add: calculateAngle_def js_divide_def angleOfCosine_def)
  have o: "objects (addObject samplePoint ''a1'' 1 initialState) = [addedPoint]"
    unfolding addObject_initial by (simp add: initialState_def)
  have i: "oid addedPoint = ''a1''" by (simp add: addedPoint_def)
  have f: "nanAngleStore =
     (addObject
       \<lparr>oid = [], otype = TAngle,
        name = generateObjectName ''angle'' (addObject samplePoint ''a1'' 1 initialState),
        visible = True, selected = False,
        showName = Some True, namePosition = None, nameStyleFontSize = None,
        nameStyleColor = None, position = \<lparr>px = 7, py = 7\<rparr>, stroke = ''#8b5cf6'',
        strokeWidth = 2, fill = ''transparent'',
        points = Some [\<lparr>px = 7, py = 7\<rparr>, \<lparr>px = 7, py = 7\<rparr>, \<lparr>px = 7, py = 7\<rparr>],
        radius = None, width = None, height = None, otext = None, fontSize = None,
        rotation = None, scaleX = None, scaleY = None, flipX = None, flipY = None,
        arrowStart = None, arrowEnd = None, angleValue = Some NaNum, baseLineId = None,
        createdAt = 0, constraints = None\<rparr>
       ''g1'' 2 (addObject samplePoint ''a1'' 1 initialState))
       \<lparr>constructionMode := CNone, constructionStep := 0\<rparr>"
    unfolding nanAngleStore_def finishAngleConstruction_def
    by (simp add: g p m a Let_def)
  show ?thesis
    unfolding f by (simp add: addObject_objects [of _ "''g1''"] o mirrorSelection_def i)
qed

lemma nanAngleStore_cursor:
  "js_index (history nanAngleStore) (historyIndex nanAngleStore)
     = Some (deepCopy (objects nanAngleStore))"
proof -
  have g: "getObjectById ''a1'' (addObject samplePoint ''a1'' 1 initialState) = Some addedPoint"
    unfolding addObject_initial by (simp add: getObjectById_def initialState_def addedPoint_def)
  have m: "0 \<le> maxHistorySize (addObject samplePoint ''a1'' 1 initialState)"
    unfolding addObject_initial by (simp add: initialState_def)
  obtain d where d: "nanAngleStore
      = (addObject d ''g1'' 2 (addObject samplePoint ''a1'' 1 initialState))
          \<lparr>constructionMode := CNone, constructionStep := 0\<rparr>"
    unfolding nanAngleStore_def finishAngleConstruction_def by (simp add: g Let_def)
  obtain s0 where s0: "addObject d ''g1'' 2 (addObject samplePoint ''a1'' 1 initialState)
      = saveToHistory s0"
    "maxHistorySize s0 = maxHistorySize (addObject samplePoint ''a1'' 1 initialState)"
    using addObject_as_save by blast
  show ?thesis unfolding d s0(1) using saveToHistory_current[of s0] m s0(2) by simp
qed

text \<open>
  Claim C2, as stated: the history invariant holds initially and is preserved by every
  store operation, and right after any committed mutation the snapshot at the cursor
  equals the live collection.

  The second half fails when a committed object carries a number that is not finite,
  because the snapshot is a JSON copy and JSON writes such a number as \<open>null\<close>. The
  store itself commits such objects: when the angle tool is finished with one point
  picked twice, the vertex is that point, \<open>calculateAngle\<close> returns NaN, and the new
  angle object is added with \<open>angleValue = NaN\<close>. Right after that commit the snapshot
  at the cursor is the JSON copy of the live collection and differs from it.
\<close>

theorem commit_of_nan_angle:
  "angleValue (last (objects nanAngleStore)) = Some NaNum
   \<and> js_index (history nanAngleStore) (historyIndex nanAngleStore)
       = Some (deepCopy (objects nanAngleStore))
   \<and> angleValue (last (deepCopy (objects nanAngleStore))) = Some NullValue
   \<and> js_index (history nanAngleStore) (historyIndex nanAngleStore)
       \<noteq> Some (objects nanAngleStore)"
proof -
  obtain nm where o: "objects nanAngleStore =
     [addedPoint\<lparr>selected := False\<rparr>,
      \<lparr>oid = ''g1'', otype = TAngle, name = nm, visible = True, selected = True,
       showName = Some True, namePosition = None, nameStyleFontSize = None,
       nameStyleColor = None, position = \<lparr>px = 7, py = 7\<rparr>, stroke = ''#8b5cf6'',
       strokeWidth = 2, fill = ''transparent'',
       points = Some [\<lparr>px = 7, py = 7\<rparr>, \<lparr>px = 7, py = 7\<rparr>, \<lparr>px = 7, py = 7\<rparr>],
       radius = None, width = None, height = None, otext = None, fontSize = None,
       rotation = None, scaleX = None, scaleY = None, flipX = None, flipY = None,
       arrowStart = None, arrowEnd = None, angleValue = Some NaNum, baseLineId = None,
       createdAt = 2, constraints = None\<rparr>]"
    using nanAngleStore_objects by blast
  have a: "angleValue (last (objects nanAngleStore)) = Some NaNum" unfolding o by simp
  have b: "angleValue (last (deepCopy (objects nanAngleStore))) = Some NullValue"
    unfolding o by (simp add: deepCopy_def jsonCopy_def jsonNumber_def)
  have "deepCopy (objects nanAngleStore) \<noteq> objects nanAngleStore"
    using a b by auto
  then have c: "js_index (history nanAngleStore) (historyIndex nanAngleStore)
       \<noteq> Some (objects nanAngleStore)"
    unfolding nanAngleStore_cursor by simp
  from a nanAngleStore_cursor b c show ?thesis by blast
qed

text \<open>
  Claim C2, amended. The invariant \<open>0 \<le> historyIndex < history.length\<close> holds in the
  initial state and is preserved by \<open>saveToHistory\<close>, \<open>undo\<close>, \<open>redo\<close> and
  \<open>clearCanvas\<close> (\<open>undo\<close> and \<open>redo\<close> return without raising); right after a
  committed mutation (\<open>addObject\<close>, \<open>updateObject\<close>, \<open>deleteObject\<close>) the invariant
  holds and the snapshot at the cursor is the JSON copy of the live collection, which
  equals the live collection whenever no live object carries a number that is not
  finite. The capacity \<open>maxHistorySize\<close> is 50 in the store and no operation changes it;
  the theorem needs it non-negative.
\<close>

theorem history_invariant:
  assumes "hist_inv s" and "0 \<le> maxHistorySize s"
  shows "hist_inv initialState
    \<and> hist_inv (saveToHistory s)
    \<and> (\<exists>s'. undo s = Inr s' \<and> hist_inv s')
    \<and> (\<exists>s'. redo s = Inr s' \<and> hist_inv s')
    \<and> hist_inv (clearCanvas s)
    \<and> (\<forall>s' \<in> {addObject objectData newObjectId now s, updateObject i updates s,
                 deleteObject i s}.
          hist_inv s'
          \<and> js_index (history s') (historyIndex s') = Some (deepCopy (objects s'))
          \<and> ((\<forall>obj \<in> set (objects s'). jsonStable obj)
               \<longrightarrow> js_index (history s') (historyIndex s') = Some (objects s')))"
proof -
  have init: "hist_inv initialState" by (simp add: hist_inv_def initialState_def)
  have sv: "hist_inv (saveToHistory s)" using assms(2) by (rule saveToHistory_inv)
  have un: "\<exists>s'. undo s = Inr s' \<and> hist_inv s'" using undo_inv[OF assms(1)] by blast
  have re: "\<exists>s'. redo s = Inr s' \<and> hist_inv s'" using redo_inv[OF assms(1)] by blast
  have cl: "hist_inv (clearCanvas s)" by (simp add: hist_inv_def clearCanvas_def)
  have gen: "\<And>s0::AppState. maxHistorySize s0 = maxHistorySize s \<Longrightarrow>
      hist_inv (saveToHistory s0)
      \<and> js_index (history (saveToHistory s0)) (historyIndex (saveToHistory s0))
          = Some (deepCopy (objects (saveToHistory s0)))
      \<and> ((\<forall>obj \<in> set (objects (saveToHistory s0)). jsonStable obj)
           \<longrightarrow> js_index (history (saveToHistory s0)) (historyIndex (saveToHistory s0))
                 = Some (objects (saveToHistory s0)))"
  proof -
    fix s0 :: AppState assume "maxHistorySize s0 = maxHistorySize s"
    then have m: "0 \<le> maxHistorySize s0" using assms(2) by simp
    show "hist_inv (saveToHistory s0)
      \<and> js_index (history (saveToHistory s0)) (historyIndex (saveToHistory s0))
          = Some (deepCopy (objects (saveToHistory s0)))
      \<and> ((\<forall>obj \<in> set (objects (saveToHistory s0)). jsonStable obj)
           \<longrightarrow> js_index (history (saveToHistory s0)) (historyIndex (saveToHistory s0))
                 = Some (objects (saveToHistory s0)))"
      using save_committed[OF m] deepCopy_stable[of "objects (saveToHistory s0)"] by auto
  qed
  obtain a where a: "addObject objectData newObjectId now s = saveToHistory a"
    "maxHistorySize a = maxHistorySize s" using addObject_as_save by blast
  obtain u where u: "updateObject i updates s = saveToHistory u"
    "maxHistorySize u = maxHistorySize s" using updateObject_as_save by blast
  obtain d where d: "deleteObject i s = saveToHistory d"
    "maxHistorySize d = maxHistorySize s" using deleteObject_as_save by blast
  have commits: "\<forall>s' \<in> {addObject objectData newObjectId now s, updateObject i updates s,
                 deleteObject i s}.
          hist_inv s'
          \<and> js_index (history s') (historyIndex s') = Some (deepCopy (objects s'))
          \<and> ((\<forall>obj \<in> set (objects s'). jsonStable obj)
               \<longrightarrow> js_index (history s') (historyIndex s') = Some (objects s'))"
    unfolding a(1) u(1) d(1) using gen[OF a(2)] gen[OF u(2)] gen[OF d(2)] by blast
  from init sv un re cl commits show ?thesis by blast
qed

theorem history_invariant_witness:
  "hist_inv initialState \<and> 0 \<le> maxHistorySize initialState
   \<and> hist_inv (saveToHistory initialState)
   \<and> (\<exists>s'. undo initialState = Inr s' \<and> hist_inv s')
   \<and> objects (addObject samplePoint ''a1'' 1 initialState) = [addedPoint]
   \<and> jsonStable addedPoint
   \<and> hist_inv (addObject samplePoint ''a1'' 1 initialState)
   \<and> js_index (history (addObject samplePoint ''a1'' 1 initialState))
               (historyIndex (addObject samplePoint ''a1'' 1 initialState))
       = Some [addedPoint]"
proof -
  have h: "hist_inv initialState" "0 \<le> maxHistorySize initialState"
    by (simp_all add: hist_inv_def initialState_def)
  have o: "objects (addObject samplePoint ''a1'' 1 initialState) = [addedPoint]"
    unfolding addObject_initial by (simp add: initialState_def)
  have st: "jsonStable addedPoint"
    by (simp add: jsonStable_def addedPoint_def samplePoint_def)
  note t = history_invariant [OF h, of samplePoint "''a1''" 1 "''a1''" id]
  from t have a: "hist_inv (saveToHistory initialState)"
    "\<exists>s'. undo initialState = Inr s' \<and> hist_inv s'"
    "hist_inv (addObject samplePoint ''a1'' 1 initialState)"
    by blast+
  from t have "(\<forall>obj \<in> set (objects (addObject samplePoint ''a1'' 1 initialState)). jsonStable obj)
      \<longrightarrow> js_index (history (addObject samplePoint ''a1'' 1 initialState))
               (historyIndex (addObject samplePoint ''a1'' 1 initialState))
            = Some (objects (addObject samplePoint ''a1'' 1 initialState))"
    by blast
  then have c: "js_index (history (addObject samplePoint ''a1'' 1 initialState))
               (historyIndex (addObject samplePoint ''a1'' 1 initialState))
       = Some [addedPoint]"
    unfolding o using st by simp
  from h a o st c show ?thesis by blast
qed

section \<open>Discarding the redo tail (claim C3)\<close>

text \<open>
  Claim C3: when the cursor is strictly before the last snapshot (\<open>canRedo\<close>), a
  committed mutation (\<open>saveToHistory\<close> itself, \<open>addObject\<close>, \<open>updateObject\<close>,
  \<open>deleteObject\<close>) keeps the snapshots up to the cursor, drops those after it, appends
  the new snapshot and applies the capacity cut; the new history has at most
  \<open>historyIndex + 2\<close> entries and \<open>canRedo\<close> is false afterwards.
\<close>

theorem redo_tail_discarded:
  assumes "hist_inv s" and "0 \<le> maxHistorySize s" and "canRedo s"
  shows "\<forall>s' \<in> {saveToHistory s, addObject objectData newObjectId now s,
                 updateObject i updates s, deleteObject i s}.
           (let h = take (nat (historyIndex s) + 1) (history s) @ [deepCopy (objects s')]
            in history s' = (if int (length h) > maxHistorySize s
                             then js_slice_from h (- maxHistorySize s) else h)
               \<and> int (length (history s')) \<le> historyIndex s + 2
               \<and> \<not> canRedo s')"
proof -
  have gen: "\<And>s0::AppState. history s0 = history s \<Longrightarrow> historyIndex s0 = historyIndex s
      \<Longrightarrow> maxHistorySize s0 = maxHistorySize s \<Longrightarrow>
      (let s' = saveToHistory s0; h = take (nat (historyIndex s) + 1) (history s) @ [deepCopy (objects s')]
            in history s' = (if int (length h) > maxHistorySize s
                             then js_slice_from h (- maxHistorySize s) else h)
               \<and> int (length (history s')) \<le> historyIndex s + 2
               \<and> \<not> canRedo s')"
  proof -
    fix s0 :: AppState assume e: "history s0 = history s" "historyIndex s0 = historyIndex s"
      "maxHistorySize s0 = maxHistorySize s"
    have "hist_inv s0" "0 \<le> maxHistorySize s0" using assms e by (simp_all add: hist_inv_def)
    from save_discards[OF this]
    show "(let s' = saveToHistory s0; h = take (nat (historyIndex s) + 1) (history s) @ [deepCopy (objects s')]
            in history s' = (if int (length h) > maxHistorySize s
                             then js_slice_from h (- maxHistorySize s) else h)
               \<and> int (length (history s')) \<le> historyIndex s + 2
               \<and> \<not> canRedo s')"
      unfolding e .
  qed
  obtain a where a: "addObject objectData newObjectId now s = saveToHistory a"
    "history a = history s" "historyIndex a = historyIndex s"
    "maxHistorySize a = maxHistorySize s" using addObject_as_save by blast
  obtain u where u: "updateObject i updates s = saveToHistory u"
    "history u = history s" "historyIndex u = historyIndex s"
    "maxHistorySize u = maxHistorySize s" using updateObject_as_save by blast
  obtain d where d: "deleteObject i s = saveToHistory d"
    "history d = history s" "historyIndex d = historyIndex s"
    "maxHistorySize d = maxHistorySize s" using deleteObject_as_save by blast
  show ?thesis
    using gen[of s] gen[OF a(2-4)] gen[OF u(2-4)] gen[OF d(2-4)]
    unfolding a(1) u(1) d(1) Let_def by blast
qed

theorem redo_tail_discarded_witness:
  "hist_inv undoneAdd \<and> 0 \<le> maxHistorySize undoneAdd \<and> canRedo undoneAdd
   \<and> history (addObject samplePoint ''b2'' 5 undoneAdd)
       = [[], [samplePoint\<lparr>oid := ''b2'', createdAt := 5, selected := True\<rparr>]]
   \<and> \<not> canRedo (addObject samplePoint ''b2'' 5 undoneAdd)"
proof -
  have h: "hist_inv undoneAdd" "0 \<le> maxHistorySize undoneAdd" "canRedo undoneAdd"
    by (simp_all add: hist_inv_def undoneAdd_def initialState_def canRedo_def)
  have o: "objects (addObject samplePoint ''b2'' 5 undoneAdd)
      = [samplePoint\<lparr>oid := ''b2'', createdAt := 5, selected := True\<rparr>]"
    by (simp add: addObject_def Let_def selectObject_def mirrorSelection_def
        saveToHistory_objects undoneAdd_def initialState_def)
  show ?thesis
    using h o redo_tail_discarded [OF h, of samplePoint "''b2''" 5 "''b2''" id]
    by (simp add: Let_def undoneAdd_def initialState_def deepCopy_def jsonCopy_def
        samplePoint_def)
qed

section \<open>Undo and redo clear the selection (claim C10)\<close>

text \<open>
  Claim C10: in a store that satisfies the history invariant, when undo (respectively
  redo) is enabled, it returns without raising; the state it returns has the cursor one
  step back (respectively forward) in the unchanged history, its live collection is the
  copy of the snapshot at the new cursor with every \<open>selected\<close> flag cleared, so every
  object has \<open>selected = false\<close>, and its selection set is empty, also when the
  snapshot it restores recorded selected objects.
\<close>

theorem undo_redo_clear_selection:
  assumes "hist_inv s"
  shows "(canUndo s \<longrightarrow>
            (\<exists>s'. undo s = Inr s'
                \<and> history s' = history s \<and> historyIndex s' = historyIndex s - 1
                \<and> objects s' = unselectAll (deepCopy (history s ! nat (historyIndex s - 1)))
                \<and> selectedObjectIds s' = []
                \<and> (\<forall>obj \<in> set (objects s'). \<not> selected obj)))
       \<and> (canRedo s \<longrightarrow>
            (\<exists>s'. redo s = Inr s'
                \<and> history s' = history s \<and> historyIndex s' = historyIndex s + 1
                \<and> objects s' = unselectAll (deepCopy (history s ! nat (historyIndex s + 1)))
                \<and> selectedObjectIds s' = []
                \<and> (\<forall>obj \<in> set (objects s'). \<not> selected obj)))"
  using assms by (auto simp: undo_ok redo_ok canUndo_def canRedo_def unselectAll_def)

theorem undo_redo_clear_selection_witness:
  "hist_inv twoAdded \<and> canUndo twoAdded
   \<and> history twoAdded ! 1 = [addedPoint] \<and> selected addedPoint
   \<and> undo twoAdded = Inr (twoAdded\<lparr>historyIndex := 1,
                                   objects := [addedPoint\<lparr>selected := False\<rparr>],
                                   selectedObjectIds := []\<rparr>)
   \<and> hist_inv undoneAdd \<and> canRedo undoneAdd
   \<and> history undoneAdd ! 1 = [addedPoint]
   \<and> redo undoneAdd = Inr redoneAdd
   \<and> objects redoneAdd = [addedPoint\<lparr>selected := False\<rparr>]
   \<and> selectedObjectIds redoneAdd = []
   \<and> historyIndex redoneAdd = 1"
proof -
  have h: "hist_inv twoAdded" "hist_inv undoneAdd"
    by (simp_all add: hist_inv_def twoAdded_def undoneAdd_def initialState_def)
  have c: "canUndo twoAdded" "canRedo undoneAdd"
    by (simp_all add: canUndo_def canRedo_def twoAdded_def undoneAdd_def initialState_def)
  have j: "history twoAdded ! 1 = [addedPoint]" "history undoneAdd ! 1 = [addedPoint]"
    "selected addedPoint" "historyIndex twoAdded = 2" "historyIndex undoneAdd = 0"
    by (simp_all add: twoAdded_def undoneAdd_def initialState_def addedPoint_def)
  have e: "unselectAll (deepCopy [addedPoint]) = [addedPoint\<lparr>selected := False\<rparr>]"
    by (simp add: unselectAll_def deepCopy_def jsonCopy_def addedPoint_def samplePoint_def)
  have u: "undo twoAdded = Inr (twoAdded\<lparr>historyIndex := 1,
                                   objects := [addedPoint\<lparr>selected := False\<rparr>],
                                   selectedObjectIds := []\<rparr>)"
    by (simp add: undo_def Let_def js_index_def deepCopy_opt_def e twoAdded_def
        initialState_def)
  have r: "redo undoneAdd = Inr redoneAdd"
    by (simp add: redo_def Let_def js_index_def deepCopy_opt_def e undoneAdd_def
        redoneAdd_def initialState_def)
  from undo_redo_clear_selection [OF h(2)] c(2) r
  have f: "objects redoneAdd = unselectAll (deepCopy (history undoneAdd ! nat (historyIndex undoneAdd + 1)))"
    "selectedObjectIds redoneAdd = []" "historyIndex redoneAdd = historyIndex undoneAdd + 1"
    by auto
  show ?thesis
    using h c u r j(1-3) f by (simp add: j e)
qed

section \<open>Selection-box commit (claim C4)\<close>

lemma collectIds_filter:
  "collectIds x0 x1 y0 y1 objs
     = map oid (filter (\<lambda>obj. visible obj \<and> isInBox x0 x1 y0 y1 obj) objs)"
  by (induction objs) auto

lemma inRect_inSpan:
  "inRect (min (px a) (px b)) (max (px a) (px b)) (min (py a) (py b)) (max (py a) (py b)) p
     = inSpan a b p"
  by (simp add: inRect_def inSpan_def)

lemma isInBox_hitsBox:
  "isInBox (min (px a) (px b)) (max (px a) (px b)) (min (py a) (py b)) (max (py a) (py b)) obj
     = hitsBox a b obj"
  by (cases "otype obj")
     (auto simp: isInBox_def hitsBox_def inRect_inSpan list_ex_iff split: option.splits)

lemma inSpan_commute: "inSpan a b p = inSpan b a p"
  by (auto simp: inSpan_def)

lemma hitsBox_commute: "hitsBox a b obj = hitsBox b a obj"
  by (simp add: hitsBox_def inSpan_commute[of a b] split: option.splits)

lemma selectionBoxCommit_ids:
  "selectedObjectIds (selectionBoxCommit a b s)
     = map oid (filter (\<lambda>obj. visible obj \<and> hitsBox a b obj) (objects s))"
  by (simp add: selectionBoxCommit_def finishSelectionBox_def startSelectionBox_def
      updateSelectionBox_def selectObjects_def Let_def collectIds_filter isInBox_hitsBox)

lemma selectionBoxCommit_objects:
  "objects (selectionBoxCommit a b s)
     = mirrorSelection (selectedObjectIds (selectionBoxCommit a b s)) (objects s)"
  by (simp add: selectionBoxCommit_def finishSelectionBox_def startSelectionBox_def
      updateSelectionBox_def selectObjects_def Let_def)

text \<open>
  Claim C4, as stated: a multi-point object is selected when any of its points lies in
  the rectangle. On the code this holds for lines only: a polygon (like every type
  other than \<open>line\<close>) falls to the \<open>default\<close> branch and is tested by its anchor. The
  triangle below is visible and has all three vertices inside the rectangle spanned by
  (40,40) and (100,100), and the commit selects nothing.
\<close>

theorem selection_box_polygon_not_selected:
  "visible draggedPolygon
   \<and> points draggedPolygon
       = Some [\<lparr>px = 50, py = 50\<rparr>, \<lparr>px = 80, py = 50\<rparr>, \<lparr>px = 50, py = 80\<rparr>]
   \<and> inSpan \<lparr>px = 40, py = 40\<rparr> \<lparr>px = 100, py = 100\<rparr> \<lparr>px = 50, py = 50\<rparr>
   \<and> inSpan \<lparr>px = 40, py = 40\<rparr> \<lparr>px = 100, py = 100\<rparr> \<lparr>px = 80, py = 50\<rparr>
   \<and> inSpan \<lparr>px = 40, py = 40\<rparr> \<lparr>px = 100, py = 100\<rparr> \<lparr>px = 50, py = 80\<rparr>
   \<and> selectedObjectIds
        (selectionBoxCommit \<lparr>px = 40, py = 40\<rparr> \<lparr>px = 100, py = 100\<rparr>
           (initialState\<lparr>objects := [draggedPolygon]\<rparr>)) = []"
  by (simp add: selectionBoxCommit_ids hitsBox_def inSpan_def draggedPolygon_def
      samplePoint_def initialState_def)

text \<open>
  Claim C4, amended. For every pair of corners and every collection, the commit replaces
  the selection with exactly the identifiers, in collection order, of the visible
  objects that hit the rectangle spanned by the corners (per-axis minimum and maximum,
  so the order of the corners does not matter), where an object of type \<open>line\<close> hits
  when it has at least two points and one of them lies inside, and an object of any
  other type (point, rectangle, circle, text, and also polygon, angle and the rest) hits
  when its anchor position lies inside. The \<open>selected\<close> flag of every object mirrors
  the new selection, and no identifier is taken from an invisible object.
\<close>

theorem selection_box_commit:
  "selectedObjectIds (selectionBoxCommit a b s)
     = map oid (filter (\<lambda>obj. visible obj \<and> hitsBox a b obj) (objects s))
   \<and> selectedObjectIds (selectionBoxCommit b a s) = selectedObjectIds (selectionBoxCommit a b s)
   \<and> objects (selectionBoxCommit a b s)
       = map (\<lambda>obj. obj\<lparr>selected := (oid obj \<in> set (selectedObjectIds (selectionBoxCommit a b s)))\<rparr>)
           (objects s)
   \<and> (distinct (map oid (objects s)) \<longrightarrow>
        (\<forall>obj \<in> set (objects s).
           oid obj \<in> set (selectedObjectIds (selectionBoxCommit a b s))
             \<longleftrightarrow> visible obj \<and> hitsBox a b obj))"
proof -
  have ids: "selectedObjectIds (selectionBoxCommit a b s)
     = map oid (filter (\<lambda>obj. visible obj \<and> hitsBox a b obj) (objects s))"
    by (rule selectionBoxCommit_ids)
  have sym: "selectedObjectIds (selectionBoxCommit b a s)
     = selectedObjectIds (selectionBoxCommit a b s)"
    by (simp add: selectionBoxCommit_ids hitsBox_commute[of a b])
  have objs: "objects (selectionBoxCommit a b s)
       = map (\<lambda>obj. obj\<lparr>selected := (oid obj \<in> set (selectedObjectIds (selectionBoxCommit a b s)))\<rparr>)
           (objects s)"
    using selectionBoxCommit_objects[of a b s] by (simp add: mirrorSelection_def)
  have dist: "distinct (map oid (objects s)) \<longrightarrow>
        (\<forall>obj \<in> set (objects s).
           oid obj \<in> set (selectedObjectIds (selectionBoxCommit a b s))
             \<longleftrightarrow> visible obj \<and> hitsBox a b obj)"
  proof (intro impI ballI)
    fix obj assume d: "distinct (map oid (objects s))" and m: "obj \<in> set (objects s)"
    have inj: "inj_on oid (set (objects s))" using d by (simp add: distinct_map)
    show "oid obj \<in> set (selectedObjectIds (selectionBoxCommit a b s))
             \<longleftrightarrow> visible obj \<and> hitsBox a b obj"
      unfolding ids using m inj by (auto dest: inj_onD)
  qed
  from ids sym objs dist show ?thesis by blast
qed

theorem selection_box_commit_witness:
  "distinct (map oid (objects boxScene))
   \<and> selectedObjectIds
        (selectionBoxCommit \<lparr>px = 100, py = 100\<rparr> \<lparr>px = 0, py = 0\<rparr> boxScene) = [''a1'', ''l1'', ''t1'']
   \<and> selectedObjectIds
        (selectionBoxCommit \<lparr>px = 0, py = 0\<rparr> \<lparr>px = 100, py = 100\<rparr> boxScene) = [''a1'', ''l1'', ''t1'']"
proof -
  have d: "distinct (map oid (objects boxScene))"
    by (simp add: boxScene_def initialState_def addedPoint_def sampleLine_def hiddenPoint_def
        draggedPolygon_def samplePoint_def)
  have f: "map oid (filter (\<lambda>obj. visible obj \<and> hitsBox \<lparr>px = 100, py = 100\<rparr> \<lparr>px = 0, py = 0\<rparr> obj)
             (objects boxScene)) = [''a1'', ''l1'', ''t1'']"
    by (simp add: boxScene_def initialState_def addedPoint_def sampleLine_def hiddenPoint_def
        draggedPolygon_def samplePoint_def hitsBox_def inSpan_def)
  show ?thesis
    using d f selection_box_commit [of "\<lparr>px = 100, py = 100\<rparr>" "\<lparr>px = 0, py = 0\<rparr>" boxScene]
    by simp
qed

section \<open>Constraint propagation (claim C5)\<close>

lemma applyConstraints_dangling:
  "find (\<lambda>x. oid x = objectId) (seen @ obj # rest) = None
     \<Longrightarrow> applyConstraints objectId seen obj rest cs = Some obj"
  by (induction cs) auto

lemma find_None_append:
  "find P (xs @ ys) = None \<longleftrightarrow> find P xs = None \<and> find P ys = None"
  by (induction xs) auto

lemma passObjects_dangling:
  "find (\<lambda>x. oid x = objectId) (seen @ objs) = None
     \<Longrightarrow> passObjects objectId seen objs = Some (seen @ objs)"
proof (induction objs arbitrary: seen)
  case Nil
  then show ?case by simp
next
  case (Cons obj objs)
  have a: "\<And>cs. applyConstraints objectId seen obj objs cs = Some obj"
    using Cons.prems by (rule applyConstraints_dangling)
  have "find (\<lambda>x. oid x = objectId) ((seen @ [obj]) @ objs) = None"
    using Cons.prems by simp
  then have "passObjects objectId (seen @ [obj]) objs = Some ((seen @ [obj]) @ objs)"
    by (rule Cons.IH)
  then show ?case by (simp add: a split: option.splits)
qed

text \<open>A constraint whose target does not exist leaves the store as it is.\<close>

lemma updateConstrainedObjects_dangling:
  "find (\<lambda>x. oid x = objectId) (objects s) = None
     \<Longrightarrow> updateConstrainedObjects objectId s = Some s"
  using passObjects_dangling[of objectId "[]" "objects s"]
  by (simp add: updateConstrainedObjects_def)

text \<open>Objects without a constraint on the moved target are left as they are.\<close>

lemma applyConstraints_unrelated:
  "\<forall>c \<in> set cs. targetId c \<noteq> objectId
     \<Longrightarrow> applyConstraints objectId seen obj rest cs = Some obj"
  by (induction cs) auto

text \<open>What each constraint kind does to the dependent.\<close>

lemma followConstraint_center:
  "ctype c = Center \<Longrightarrow> otype obj = TCircle \<Longrightarrow> offset c = Some off
     \<Longrightarrow> followConstraint c target obj
           = Some (obj\<lparr>position := \<lparr>px = px (position target) + px off,
                                     py = py (position target) + py off\<rparr>\<rparr>)"
  by (simp add: followConstraint_def)

lemma followConstraint_start:
  "ctype c = StartPoint \<Longrightarrow> otype obj = TLine \<Longrightarrow> points obj = Some (p # ps)
     \<Longrightarrow> followConstraint c target obj
           = Some (obj\<lparr>points := Some (position target # ps), position := position target\<rparr>)"
  by (simp add: followConstraint_def js_assign_def)

lemma followConstraint_end:
  "ctype c = EndPoint \<Longrightarrow> otype obj = TLine \<Longrightarrow> points obj = Some (p # q # ps)
     \<Longrightarrow> followConstraint c target obj
           = Some (obj\<lparr>points := Some (p # position target # ps)\<rparr>)"
  by (simp add: followConstraint_def js_assign_def)

text \<open>
  Claim C5: \<open>updateConstrainedObjects\<close> makes one pass over the objects whose
  constraints reference the moved target; a circle with a \<open>center\<close> constraint moves to
  the target's position, a line with a \<open>start_point\<close> or \<open>end_point\<close> constraint has
  that end point moved there, in each case with the constraint's offset added; a
  constraint on a missing target is a no-op.

  The code adds the offset in the \<open>center\<close> branch only. At the input below the point
  \<open>p\<close> is at (10,10), the circle and the line follow it with offset (5,5), and a second
  line has a constraint on a target that does not exist. The pass returns normally,
  moves the circle to (15,15), leaves the dangling line as it is, and moves the end
  point of the line to (10,10), where the claim says (15,15).
\<close>

theorem end_point_offset_ignored:
  "updateConstrainedObjects ''p''
     (initialState\<lparr>objects := [movedPoint, followerCircle, danglingLine, followerLine]\<rparr>)
   = Some (initialState\<lparr>objects :=
       [movedPoint,
        followerCircle\<lparr>position := \<lparr>px = 15, py = 15\<rparr>\<rparr>,
        danglingLine,
        followerLine\<lparr>points := Some [\<lparr>px = 0, py = 0\<rparr>, \<lparr>px = 10, py = 10\<rparr>]\<rparr>]\<rparr>)"
  by (simp add: updateConstrainedObjects_def followConstraint_def js_assign_def
      movedPoint_def followerCircle_def followerLine_def danglingLine_def samplePoint_def
      initialState_def)

section \<open>Lemmas on the geometry engine\<close>












section \<open>Perpendicular line (claim C6)\<close>




section \<open>Angle (claim C7)\<close>




section \<open>View-bounds fitting (claim C8)\<close>

lemma sample_envelope:
  "foldl visitObject None [samplePoint]
     = Some \<lparr>minX = 29 / 5, maxX = 41 / 5, minY = 29 / 5, maxY = 41 / 5\<rparr>"
  by (simp add: visitObject_def samplePoint_def widen_def nameExtents_def truthy_def Let_def)

lemma sample_tikz:
  "pixelToTikZValue (29 / 5) = 21 / 100" "pixelToTikZValue (41 / 5) = 29 / 100"
  "pixelToTikZValue (- (29 / 5)) = - (21 / 100)" "pixelToTikZValue (- (41 / 5)) = - (29 / 100)"
  by (simp_all add: pixelToTikZValue_def toFixedValue_def Let_def)

lemma sample_rounded:
  "padAndRound (21 / 100) (29 / 100) = (- 1, 2)"
  "padAndRound (- (29 / 100)) (- (21 / 100)) = (- 2, 1)"
  by (simp_all add: padAndRound_def roundToNice_def Let_def)

lemma sample_bounds:
  "calculateBounds [samplePoint] = \<lparr>minX = - 3 / 2, maxX = 5 / 2, minY = - 2, maxY = 1\<rparr>"
  unfolding calculateBounds_def sample_envelope
  by (simp add: sample_tikz sample_rounded Let_def ensureMinRange_def minRange_def
      getOriginOffset_def)

text \<open>
  Claim C8: the window that \<open>calculateBounds\<close> returns is never degenerate, and for a
  scene of a single point it has at least the minimum size on both axes.

  The code does not do so. Its last step is meant to bring both ranges up to the
  minimum (the comments read \<open>Ensure minimum reasonable size\<close> and
  \<open>Minimum 4 units range\<close>), but the check of the X range returns at once, before the
  Y range is looked at. For the single visible point at canvas position (7,7), drawn
  with stroke width 2 and without a name label, the envelope is 5.8 to 8.2 pixels on
  both axes, that is 0.21 to 0.29 and -0.29 to -0.21 in output units; the padded ranges
  are rounded outward to [-1, 2] and [-2, 1], each 3 units long. The X range is
  re-centred to [-1.5, 2.5], 4 units, and the function returns with the Y range still 3
  units long, below the minimum. The sibling branch for Y does enlarge the same Y range
  [-2, 1] to [-2.5, 1.5] when the X range is long enough to reach it.
\<close>

theorem view_bounds_early_return:
  "otype samplePoint = TPoint \<and> visible samplePoint
   \<and> position samplePoint = \<lparr>px = 7, py = 7\<rparr>
   \<and> calculateBounds [samplePoint] = \<lparr>minX = - 3 / 2, maxX = 5 / 2, minY = - 2, maxY = 1\<rparr>
   \<and> maxX (calculateBounds [samplePoint]) - minX (calculateBounds [samplePoint]) = minRange
   \<and> maxY (calculateBounds [samplePoint]) - minY (calculateBounds [samplePoint]) = 3
   \<and> maxY (calculateBounds [samplePoint]) - minY (calculateBounds [samplePoint]) < minRange
   \<and> ensureMinRange (- 1) 2 (- 2) 1 = \<lparr>minX = - 3 / 2, maxX = 5 / 2, minY = - 2, maxY = 1\<rparr>
   \<and> ensureMinRange (- 3) 3 (- 2) 1 = \<lparr>minX = - 3, maxX = 3, minY = - 5 / 2, maxY = 3 / 2\<rparr>"
  unfolding sample_bounds
  by (simp add: samplePoint_def minRange_def ensureMinRange_def Let_def)

section \<open>Code generation on the empty collection (claim C9)\<close>









end
